theory Spec2Isabelle
  imports Complex_Main
begin

section \<open>JavaScript numbers\<close>

text \<open>
  A JavaScript \<open>number\<close> is a finite value, one of the two infinities, or NaN.
  Finite values carry their exact real value: the rounding and the overflow of IEEE
  doubles are not part of the model, the special values and the rules that produce
  them are. Every zero divisor of this program is a difference \<open>x - x\<close> or a DOM
  length, that is \<open>+0\<close>, so a finite non-zero value divided by zero takes the sign
  of the dividend.
\<close>

datatype jsnum = Fin real | PInf | NInf | NaN

fun jneg :: "jsnum \<Rightarrow> jsnum" where
  "jneg (Fin x) = Fin (- x)"
| "jneg PInf = NInf"
| "jneg NInf = PInf"
| "jneg NaN = NaN"

fun jadd :: "jsnum \<Rightarrow> jsnum \<Rightarrow> jsnum" where
  "jadd (Fin x) (Fin y) = Fin (x + y)"
| "jadd NaN _ = NaN"
| "jadd _ NaN = NaN"
| "jadd PInf NInf = NaN"
| "jadd NInf PInf = NaN"
| "jadd PInf _ = PInf"
| "jadd _ PInf = PInf"
| "jadd NInf _ = NInf"
| "jadd _ NInf = NInf"

definition jsub :: "jsnum \<Rightarrow> jsnum \<Rightarrow> jsnum" where
  "jsub a b = jadd a (jneg b)"

fun jmul :: "jsnum \<Rightarrow> jsnum \<Rightarrow> jsnum" where
  "jmul (Fin x) (Fin y) = Fin (x * y)"
| "jmul NaN _ = NaN"
| "jmul _ NaN = NaN"
| "jmul (Fin x) PInf = (if 0 < x then PInf else if x < 0 then NInf else NaN)"
| "jmul (Fin x) NInf = (if 0 < x then NInf else if x < 0 then PInf else NaN)"
| "jmul PInf (Fin y) = (if 0 < y then PInf else if y < 0 then NInf else NaN)"
| "jmul NInf (Fin y) = (if 0 < y then NInf else if y < 0 then PInf else NaN)"
| "jmul PInf PInf = PInf"
| "jmul PInf NInf = NInf"
| "jmul NInf PInf = NInf"
| "jmul NInf NInf = PInf"

fun jdiv :: "jsnum \<Rightarrow> jsnum \<Rightarrow> jsnum" where
  "jdiv (Fin x) (Fin y) =
     (if y \<noteq> 0 then Fin (x / y)
      else if 0 < x then PInf else if x < 0 then NInf else NaN)"
| "jdiv NaN _ = NaN"
| "jdiv _ NaN = NaN"
| "jdiv (Fin x) PInf = Fin 0"
| "jdiv (Fin x) NInf = Fin 0"
| "jdiv PInf (Fin y) = (if 0 \<le> y then PInf else NInf)"
| "jdiv NInf (Fin y) = (if 0 \<le> y then NInf else PInf)"
| "jdiv PInf PInf = NaN"
| "jdiv PInf NInf = NaN"
| "jdiv NInf PInf = NaN"
| "jdiv NInf NInf = NaN"

text \<open>\<open>a || b\<close> on two DOM readings (finite numbers): \<open>0\<close> is falsy.\<close>

definition num_or :: "real \<Rightarrow> real \<Rightarrow> real" where
  "num_or a b = (if a \<noteq> 0 then a else b)"

text \<open>Truthiness of an optional string: \<open>undefined\<close> and \<open>""\<close> are falsy.\<close>

definition truthy_str :: "string option \<Rightarrow> bool" where
  "truthy_str s = (case s of None \<Rightarrow> False | Some t \<Rightarrow> t \<noteq> [])"

text \<open>Truthiness of a timer handle (\<open>number | null\<close>): \<open>null\<close> and \<open>0\<close> are falsy.\<close>

definition truthy_id :: "nat option \<Rightarrow> bool" where
  "truthy_id h = (case h of None \<Rightarrow> False | Some i \<Rightarrow> i \<noteq> 0)"

text \<open>\<open>String.prototype.toLowerCase\<close> on the ASCII letters of a tag name.\<close>

definition lower_char :: "char \<Rightarrow> char" where
  "lower_char c =
     (case map_of (zip ''ABCDEFGHIJKLMNOPQRSTUVWXYZ'' ''abcdefghijklmnopqrstuvwxyz'') c of
        Some d \<Rightarrow> d
      | None \<Rightarrow> c)"

definition toLowerCase :: "string \<Rightarrow> string" where
  "toLowerCase s = map lower_char s"


section \<open>Data model of \<open>app.ts\<close>\<close>

text \<open>The template literal \<open>`${v}px`\<close>.\<close>

datatype css_len = Px jsnum

text \<open>\<open>ScrollbarParam\<close>: the constructor's parameters.\<close>

record ScrollbarParam =
  p_parent :: string
  p_percentage :: jsnum
  p_right :: "string option"
  p_containerColor :: "string option"
  p_indicatorColor :: "string option"
  p_velocity :: "jsnum option"

text \<open>\<open>ScrollBarStyle\<close>.\<close>

record ScrollBarStyle =
  st_opacity :: jsnum
  st_height :: "css_len option"
  st_top :: "css_len option"
  st_right :: "string option"

text \<open>
  A created \<open>div\<close>: its class list and the inline style properties the program
  writes. \<open>None\<close> is the unset property (the empty string); \<open>css_transform\<close> holds
  the argument of \<open>translateY(..px)\<close>.
\<close>

record elem =
  classList :: "string list"
  css_opacity :: "jsnum option"
  css_height :: "css_len option"
  css_top :: "css_len option"
  css_right :: "string option"
  css_backgroundColor :: "string option"
  css_transform :: "jsnum option"

definition createElement :: elem where
  "createElement = \<lparr>classList = [], css_opacity = None, css_height = None,
     css_top = None, css_right = None, css_backgroundColor = None,
     css_transform = None\<rparr>"

text \<open>
  The fields of class \<open>Scrollbar\<close>. \<open>element\<close> and \<open>indicator\<close> are \<open>None\<close> while
  \<open>createElements\<close> has not run (the fields are \<open>undefined\<close> then). \<open>parent\<close> is a
  reference to a live element: its metrics are read from the environment at each
  call.
\<close>

record Scrollbar =
  element :: "elem option"
  indicator :: "elem option"
  percentage :: jsnum
  velocity :: jsnum
  containerColor :: "string option"
  indicatorColor :: "string option"
  scrollTimeout :: "nat option"
  right :: "string option"
  style :: ScrollBarStyle
  isDragging :: bool
  startY :: jsnum
  startScrollTop :: jsnum
  isScrollbarNeeded :: bool

definition timeTriggerScroll :: nat where
  "timeTriggerScroll = 2"

definition opacityBasic :: jsnum where
  "opacityBasic = Fin 1"

definition opacityTarget :: jsnum where
  "opacityTarget = Fin 0.2"


section \<open>The browser\<close>

text \<open>The metrics of the host element (\<open>this.parent\<close>) at the time of a call.\<close>

record host =
  tagName :: string
  scrollHeight :: real
  clientHeight :: real
  rectHeight :: real

text \<open>
  What the program reads from the browser during one call: \<open>window.innerHeight\<close>,
  \<open>window.scrollY\<close>, \<open>document.documentElement.scrollTop\<close> and \<open>.scrollHeight\<close>,
  the host's metrics, and the rendered height of the track
  (\<open>this.element.clientHeight\<close>).
\<close>

record env =
  innerHeight :: real
  scrollY :: real
  docScrollTop :: real
  docScrollHeight :: real
  parent :: host
  trackClientHeight :: real

datatype target = Window | Track | Thumb

datatype handler =
    CallHandleScroll
  | CallDefineStyle
  | CallStartDrag
  | CallOnDrag
  | CallStopDrag
  | CallStyleActivity jsnum

text \<open>
  The browser state the program changes: registered listeners, the body's
  \<open>userSelect\<close>, the arguments of the \<open>window.scrollTo(0, y)\<close> calls (newest first),
  the pending timeouts as (handle, due time in ms), the next timer handle, the clock
  in ms, and how many elements were appended to the host. A browser hands out
  timer handles greater than zero; the theorems about timers assume
  \<open>0 < nextTimer\<close> of the browser the script starts in.
\<close>

record browser =
  listeners :: "(target \<times> string \<times> handler) list"
  userSelect :: string
  scrollRequests :: "jsnum list"
  timers :: "(nat \<times> nat) list"
  nextTimer :: nat
  now :: nat
  appended :: nat

text \<open>
  An uncaught exception ends the call: the result is \<open>Inl\<close> and the state the call
  had reached is dropped. The only exception of this program is the TypeError of
  reading a property of \<open>undefined\<close> or \<open>null\<close>.
\<close>

datatype js_error = TypeError

type_synonym world = "Scrollbar \<times> browser"

definition addEventListener :: "target \<Rightarrow> string \<Rightarrow> handler \<Rightarrow> browser \<Rightarrow> browser" where
  "addEventListener tg nm h br = br\<lparr>listeners := listeners br @ [(tg, nm, h)]\<rparr>"

definition setTimeout :: "nat \<Rightarrow> browser \<Rightarrow> nat \<times> browser" where
  "setTimeout delay br =
     (nextTimer br,
      br\<lparr>timers := timers br @ [(nextTimer br, now br + delay)],
         nextTimer := nextTimer br + 1\<rparr>)"

definition clearTimeout :: "nat \<Rightarrow> browser \<Rightarrow> browser" where
  "clearTimeout i br = br\<lparr>timers := filter (\<lambda>t. fst t \<noteq> i) (timers br)\<rparr>"


section \<open>The methods of class \<open>Scrollbar\<close>\<close>

definition needsScrollbar :: "env \<Rightarrow> host \<Rightarrow> bool" where
  "needsScrollbar e p =
     (if toLowerCase (tagName p) = ''body''
      then docScrollHeight e > innerHeight e
      else scrollHeight p > clientHeight p)"

definition parentHeight :: "env \<Rightarrow> real" where
  "parentHeight e = rectHeight (parent e)"

definition styleActivity :: "jsnum \<Rightarrow> world \<Rightarrow> js_error + world" where
  "styleActivity opacity w =
     (case element (fst w) of
        None \<Rightarrow> Inl TypeError
      | Some el \<Rightarrow>
          Inr ((fst w)\<lparr>element := Some (el\<lparr>css_opacity := Some opacity\<rparr>)\<rparr>, snd w))"

definition updateScrollbar :: "world \<Rightarrow> js_error + world" where
  "updateScrollbar w =
     (case element (fst w) of
        None \<Rightarrow> Inl TypeError
      | Some el \<Rightarrow>
          (let s = style (fst w);
               el1 = el\<lparr>css_opacity := Some (st_opacity s)\<rparr>;
               el2 = el1\<lparr>css_height := (case st_height s of Some h \<Rightarrow> Some h | None \<Rightarrow> None)\<rparr>;
               el3 = el2\<lparr>css_top := (case st_top s of Some t \<Rightarrow> Some t | None \<Rightarrow> None)\<rparr>;
               el4 = (if truthy_str (st_right s) then el3\<lparr>css_right := st_right s\<rparr> else el3)
           in Inr ((fst w)\<lparr>element := Some el4\<rparr>, snd w)))"

definition baseCalcul :: "env \<Rightarrow> real" where
  "baseCalcul e =
     (if parentHeight e > innerHeight e then innerHeight e else parentHeight e)"

definition defineStyle :: "env \<Rightarrow> world \<Rightarrow> js_error + world" where
  "defineStyle e w =
     (let sb = fst w;
          elementHeight = jmul (Fin (baseCalcul e)) (percentage sb);
          s1 = \<lparr>st_opacity = Fin 0.2,
                st_height = Some (Px elementHeight),
                st_top = Some (Px (jdiv (jsub (Fin (baseCalcul e)) elementHeight) (Fin 2))),
                st_right = None\<rparr>;
          s2 = (if truthy_str (right sb) then s1\<lparr>st_right := right sb\<rparr> else s1)
      in case updateScrollbar (sb\<lparr>style := s2\<rparr>, snd w) of
           Inl err \<Rightarrow> Inl err
         | Inr w1 \<Rightarrow>
             Inr (fst w1,
                  addEventListener Track ''mouseleave'' (CallStyleActivity opacityTarget)
                    (addEventListener Track ''mouseenter'' (CallStyleActivity opacityBasic)
                       (snd w1))))"

text \<open>The local constants of \<open>updateIndicator\<close>.\<close>

definition scrollTop :: "env \<Rightarrow> real" where
  "scrollTop e = num_or (scrollY e) (docScrollTop e)"

definition totalHeight :: "env \<Rightarrow> jsnum" where
  "totalHeight e = jsub (Fin (scrollHeight (parent e))) (Fin (innerHeight e))"

definition progressHeight :: "env \<Rightarrow> jsnum" where
  "progressHeight e =
     jmul (jdiv (Fin (innerHeight e)) (Fin (scrollHeight (parent e))))
          (Fin (trackClientHeight e))"

definition scrollPercent :: "env \<Rightarrow> jsnum" where
  "scrollPercent e = jdiv (Fin (scrollTop e)) (totalHeight e)"

definition indicatorTop :: "env \<Rightarrow> jsnum" where
  "indicatorTop e =
     jmul (scrollPercent e) (jsub (Fin (trackClientHeight e)) (progressHeight e))"

definition updateIndicator :: "env \<Rightarrow> world \<Rightarrow> js_error + world" where
  "updateIndicator e w =
     (case element (fst w) of
        None \<Rightarrow> Inl TypeError
      | Some el \<Rightarrow>
          (case indicator (fst w) of
             None \<Rightarrow> Inl TypeError
           | Some ind \<Rightarrow>
               Inr ((fst w)\<lparr>indicator :=
                      Some (ind\<lparr>css_height := Some (Px (progressHeight e)),
                                css_transform := Some (indicatorTop e)\<rparr>)\<rparr>,
                    snd w)))"

definition handleScroll :: "env \<Rightarrow> world \<Rightarrow> js_error + world" where
  "handleScroll e w =
     (case styleActivity opacityBasic w of
        Inl err \<Rightarrow> Inl err
      | Inr w1 \<Rightarrow>
          (let br1 = (case scrollTimeout (fst w1) of
                        None \<Rightarrow> snd w1
                      | Some i \<Rightarrow> if truthy_id (Some i) then clearTimeout i (snd w1) else snd w1);
               r = setTimeout (timeTriggerScroll * 1000) br1
           in updateIndicator e ((fst w1)\<lparr>scrollTimeout := Some (fst r)\<rparr>, snd r)))"

definition startDrag :: "env \<Rightarrow> real \<Rightarrow> world \<Rightarrow> js_error + world" where
  "startDrag e clientY w =
     Inr ((fst w)\<lparr>isDragging := True,
                  startY := Fin clientY,
                  startScrollTop := Fin (num_or (scrollY e) (docScrollTop e))\<rparr>,
          (snd w)\<lparr>userSelect := ''none''\<rparr>)"

definition onDrag :: "env \<Rightarrow> real \<Rightarrow> world \<Rightarrow> js_error + world" where
  "onDrag e clientY w =
     (if \<not> isDragging (fst w) then Inr w
      else
        (case element (fst w) of
           None \<Rightarrow> Inl TypeError
         | Some el \<Rightarrow>
             (let deltaY = jsub (Fin clientY) (startY (fst w));
                  scrollPercent = jdiv (jmul deltaY (velocity (fst w))) (Fin (trackClientHeight e));
                  totalHeight = jsub (Fin (scrollHeight (parent e))) (Fin (innerHeight e));
                  y = jadd (startScrollTop (fst w)) (jmul scrollPercent totalHeight)
              in Inr (fst w, (snd w)\<lparr>scrollRequests := y # scrollRequests (snd w)\<rparr>))))"

definition stopDrag :: "world \<Rightarrow> js_error + world" where
  "stopDrag w = Inr ((fst w)\<lparr>isDragging := False\<rparr>, (snd w)\<lparr>userSelect := ''''\<rparr>)"

definition Colors :: "world \<Rightarrow> js_error + world" where
  "Colors w =
     (case (if truthy_str (containerColor (fst w))
            then (case element (fst w) of
                    None \<Rightarrow> Inl TypeError
                  | Some el \<Rightarrow>
                      Inr ((fst w)\<lparr>element :=
                             Some (el\<lparr>css_backgroundColor := containerColor (fst w)\<rparr>)\<rparr>, snd w))
            else Inr w) of
        Inl err \<Rightarrow> Inl err
      | Inr w1 \<Rightarrow>
          (if truthy_str (indicatorColor (fst w1))
           then (case indicator (fst w1) of
                   None \<Rightarrow> Inl TypeError
                 | Some ind \<Rightarrow>
                     Inr ((fst w1)\<lparr>indicator :=
                            Some (ind\<lparr>css_backgroundColor := indicatorColor (fst w1)\<rparr>)\<rparr>, snd w1))
           else Inr w1))"

text \<open>
  \<open>createElements\<close>: two fresh \<open>div\<close>s with their classes; the track is appended
  to the host. That the thumb is the track's child is not recorded.
\<close>

definition createElements :: "world \<Rightarrow> world" where
  "createElements w =
     ((fst w)\<lparr>element := Some (createElement\<lparr>classList := [''scrollbar'']\<rparr>),
              indicator := Some (createElement\<lparr>classList := [''scrollbar-indicator'']\<rparr>)\<rparr>,
      (snd w)\<lparr>appended := appended (snd w) + 1\<rparr>)"

text \<open>
  The constructor. \<open>found\<close> is what \<open>document.querySelector(parameters.parent)\<close>
  returns (\<open>None\<close> for \<open>null\<close>); reading \<open>parent.tagName\<close> of \<open>null\<close> throws. The
  field initialisers run before the body.
\<close>

definition constructor :: "env \<Rightarrow> host option \<Rightarrow> ScrollbarParam \<Rightarrow> browser \<Rightarrow> js_error + world" where
  "constructor e found parameters br =
     (case found of
        None \<Rightarrow> Inl TypeError
      | Some p \<Rightarrow>
          (let sb0 = \<lparr>element = None, indicator = None,
                      percentage = p_percentage parameters,
                      velocity = (case p_velocity parameters of None \<Rightarrow> Fin 1 | Some v \<Rightarrow> v),
                      containerColor = p_containerColor parameters,
                      indicatorColor = p_indicatorColor parameters,
                      scrollTimeout = None,
                      right = p_right parameters,
                      style = \<lparr>st_opacity = opacityTarget, st_height = None,
                                st_top = None, st_right = None\<rparr>,
                      isDragging = False,
                      startY = Fin 0,
                      startScrollTop = Fin 0,
                      isScrollbarNeeded = True\<rparr>;
               sb1 = (if \<not> needsScrollbar e p then sb0\<lparr>isScrollbarNeeded := False\<rparr> else sb0)
           in Inr (if isScrollbarNeeded sb1 then createElements (sb1, br) else (sb1, br))))"

definition init :: "env \<Rightarrow> world \<Rightarrow> js_error + world" where
  "init e w =
     (if \<not> isScrollbarNeeded (fst w) then Inr w
      else
        (case (if truthy_str (containerColor (fst w)) \<or> truthy_str (indicatorColor (fst w))
               then Colors w else Inr w) of
           Inl err \<Rightarrow> Inl err
         | Inr w1 \<Rightarrow>
             (case defineStyle e w1 of
                Inl err \<Rightarrow> Inl err
              | Inr w2 \<Rightarrow>
                  (case updateIndicator e w2 of
                     Inl err \<Rightarrow> Inl err
                   | Inr w3 \<Rightarrow>
                       (case indicator (fst w3) of
                          None \<Rightarrow> Inl TypeError
                        | Some ind \<Rightarrow>
                            Inr (fst w3,
                                 addEventListener Window ''mouseup'' CallStopDrag
                                   (addEventListener Window ''mousemove'' CallOnDrag
                                      (addEventListener Thumb ''mousedown'' CallStartDrag
                                         (addEventListener Window ''resize'' CallDefineStyle
                                            (addEventListener Window ''scroll'' CallHandleScroll
                                               (snd w3)))))))))))"


section \<open>Events\<close>

text \<open>
  A listener calls one method; \<open>clientY\<close> is the pointer position of the event.
\<close>

fun run_handler :: "handler \<Rightarrow> env \<Rightarrow> real \<Rightarrow> world \<Rightarrow> js_error + world" where
  "run_handler CallHandleScroll e y w = handleScroll e w"
| "run_handler CallDefineStyle e y w = defineStyle e w"
| "run_handler CallStartDrag e y w = startDrag e y w"
| "run_handler CallOnDrag e y w = onDrag e y w"
| "run_handler CallStopDrag e y w = stopDrag w"
| "run_handler (CallStyleActivity opacity) e y w = styleActivity opacity w"

fun run_handlers :: "handler list \<Rightarrow> env \<Rightarrow> real \<Rightarrow> world \<Rightarrow> js_error + world" where
  "run_handlers [] e y w = Inr w"
| "run_handlers (h # hs) e y w =
     (case run_handler h e y w of
        Inl err \<Rightarrow> Inl err
      | Inr w1 \<Rightarrow> run_handlers hs e y w1)"

text \<open>
  Dispatching an event runs the listeners registered for that target and event
  name when the dispatch starts, in the order of registration.
\<close>

definition dispatch :: "target \<Rightarrow> string \<Rightarrow> env \<Rightarrow> real \<Rightarrow> world \<Rightarrow> js_error + world" where
  "dispatch tg nm e y w =
     run_handlers
       (map (\<lambda>l. snd (snd l))
          (filter (\<lambda>l. fst l = tg \<and> fst (snd l) = nm) (listeners (snd w))))
       e y w"

text \<open>
  The only callback this program hands to \<open>setTimeout\<close> is
  \<open>() => this.styleActivity({ opacity: this.opacityTarget })\<close>.
\<close>

fun run_timeouts :: "(nat \<times> nat) list \<Rightarrow> world \<Rightarrow> js_error + world" where
  "run_timeouts [] w = Inr w"
| "run_timeouts (t # ts) w =
     (case styleActivity opacityTarget w of
        Inl err \<Rightarrow> Inl err
      | Inr w1 \<Rightarrow> run_timeouts ts w1)"

text \<open>
  Time passes: the clock advances by \<open>d\<close> ms and every timeout that has become due
  is removed from the pending ones and its callback runs.
\<close>

definition elapse :: "nat \<Rightarrow> world \<Rightarrow> js_error + world" where
  "elapse d w =
     (let t = now (snd w) + d;
          due = filter (\<lambda>x. snd x \<le> t) (timers (snd w))
      in run_timeouts due
           (fst w, (snd w)\<lparr>now := t, timers := filter (\<lambda>x. \<not> snd x \<le> t) (timers (snd w))\<rparr>))"

datatype event = Dispatch target string env real | Elapse nat

fun step :: "event \<Rightarrow> world \<Rightarrow> js_error + world" where
  "step (Dispatch tg nm e y) w = dispatch tg nm e y w"
| "step (Elapse d) w = elapse d w"

fun run :: "event list \<Rightarrow> world \<Rightarrow> js_error + world" where
  "run [] w = Inr w"
| "run (ev # evs) w =
     (case step ev w of
        Inl err \<Rightarrow> Inl err
      | Inr w1 \<Rightarrow> run evs w1)"

text \<open>A browser in which this script has not run yet.\<close>

definition browser0 :: browser where
  "browser0 = \<lparr>listeners = [], userSelect = '''', scrollRequests = [], timers = [],
     nextTimer = 1, now = 0, appended = 0\<rparr>"

text \<open>\<open>new Scrollbar(parameters).init()\<close>, as the last lines of \<open>app.ts\<close> do.\<close>

definition start :: "env \<Rightarrow> host option \<Rightarrow> ScrollbarParam \<Rightarrow> browser \<Rightarrow> js_error + world" where
  "start e found parameters br =
     (case constructor e found parameters br of
        Inl err \<Rightarrow> Inl err
      | Inr w \<Rightarrow> init e w)"


section \<open>Observations, traces and invariants\<close>

text \<open>What an observer sees of a result: the track's opacity, the thumb's
  translation, the pending timeouts.\<close>

definition trackOpacity :: "js_error + world \<Rightarrow> jsnum option" where
  "trackOpacity r =
     (case r of
        Inl err \<Rightarrow> None
      | Inr w \<Rightarrow> (case element (fst w) of None \<Rightarrow> None | Some el \<Rightarrow> css_opacity el))"

definition thumbTransform :: "js_error + world \<Rightarrow> jsnum option" where
  "thumbTransform r =
     (case r of
        Inl err \<Rightarrow> None
      | Inr w \<Rightarrow> (case indicator (fst w) of None \<Rightarrow> None | Some ind \<Rightarrow> css_transform ind))"

definition pendingTimers :: "js_error + world \<Rightarrow> (nat \<times> nat) list" where
  "pendingTimers r = (case r of Inl err \<Rightarrow> [] | Inr w \<Rightarrow> timers (snd w))"

text \<open>
  The clock time of the most recent scroll event of a trace that starts at time
  \<open>t\<close>, \<open>s\<close> being the time of the last scroll event before the trace.
\<close>

fun last_scroll :: "nat \<Rightarrow> nat option \<Rightarrow> event list \<Rightarrow> nat option" where
  "last_scroll t s [] = s"
| "last_scroll t s (Elapse d # evs) = last_scroll (t + d) s evs"
| "last_scroll t s (Dispatch tg nm e y # evs) =
     last_scroll t (if tg = Window \<and> nm = ''scroll'' then Some t else s) evs"

text \<open>The listeners \<open>init\<close> registers itself, and those of each \<open>defineStyle\<close>.\<close>

definition window_listeners :: "(target \<times> string \<times> handler) list" where
  "window_listeners =
     [(Window, ''scroll'', CallHandleScroll),
      (Window, ''resize'', CallDefineStyle),
      (Thumb, ''mousedown'', CallStartDrag),
      (Window, ''mousemove'', CallOnDrag),
      (Window, ''mouseup'', CallStopDrag)]"

definition track_listeners :: "(target \<times> string \<times> handler) list" where
  "track_listeners =
     [(Track, ''mouseenter'', CallStyleActivity opacityBasic),
      (Track, ''mouseleave'', CallStyleActivity opacityTarget)]"

definition wired :: "world \<Rightarrow> bool" where
  "wired w \<longleftrightarrow> element (fst w) \<noteq> None \<and> indicator (fst w) \<noteq> None"

text \<open>
  The timer invariant: handles are positive, and a pending timeout is the one
  \<open>scrollTimeout\<close> names, due 2000 ms after the last scroll event (at time \<open>s\<close>)
  and not yet due.
\<close>

definition timer_inv :: "nat option \<Rightarrow> world \<Rightarrow> bool" where
  "timer_inv s w \<longleftrightarrow>
     0 < nextTimer (snd w) \<and>
     (\<forall>i. scrollTimeout (fst w) = Some i \<longrightarrow> 0 < i) \<and>
     (timers (snd w) = [] \<or>
      (\<exists>i sc. timers (snd w) = [(i, sc + 2000)] \<and> scrollTimeout (fst w) = Some i \<and>
              s = Some sc \<and> now (snd w) < sc + 2000))"

text \<open>
  The wiring invariant: an instance that needs a scrollbar has its elements and
  exactly the listeners of \<open>init\<close>, the track's hover listeners possibly several
  times; an instance that needs none has no listener and no timeout.
\<close>

definition wiring_inv :: "world \<Rightarrow> bool" where
  "wiring_inv w \<longleftrightarrow>
     (if isScrollbarNeeded (fst w)
      then wired w \<and>
           filter (\<lambda>l. fst l \<noteq> Track) (listeners (snd w)) = window_listeners \<and>
           set (filter (\<lambda>l. fst l = Track) (listeners (snd w))) = set track_listeners
      else listeners (snd w) = [] \<and> timers (snd w) = [])"

definition debounce_inv :: "nat option \<Rightarrow> world \<Rightarrow> bool" where
  "debounce_inv s w \<longleftrightarrow> timer_inv s w \<and> wiring_inv w"

text \<open>What every handler other than \<open>handleScroll\<close> leaves alone.\<close>

definition frame :: "world \<Rightarrow> world \<Rightarrow> bool" where
  "frame w w' \<longleftrightarrow>
     wired w' \<and> isScrollbarNeeded (fst w') = isScrollbarNeeded (fst w) \<and>
     nextTimer (snd w') = nextTimer (snd w) \<and>
     scrollTimeout (fst w') = scrollTimeout (fst w) \<and>
     timers (snd w') = timers (snd w) \<and> now (snd w') = now (snd w) \<and>
     (\<exists>ls. listeners (snd w') = listeners (snd w) @ ls \<and> set ls \<subseteq> set track_listeners)"






section \<open>Concrete inputs\<close>

text \<open>
  A page of 3000px in a window of 1000px, the body as host, the parameters of the
  example at the end of \<open>app.ts\<close>; the track renders 850px high.
\<close>

definition ex_body :: host where
  "ex_body = \<lparr>tagName = ''BODY'', scrollHeight = 3000, clientHeight = 1000,
     rectHeight = 3000\<rparr>"

definition ex_env :: env where
  "ex_env = \<lparr>innerHeight = 1000, scrollY = 0, docScrollTop = 0, docScrollHeight = 3000,
     parent = ex_body, trackClientHeight = 850\<rparr>"

definition ex_param :: ScrollbarParam where
  "ex_param = \<lparr>p_parent = ''body'', p_percentage = Fin 0.85, p_right = None,
     p_containerColor = None, p_indicatorColor = None, p_velocity = Some (Fin 2)\<rparr>"

definition ex_track :: elem where
  "ex_track = \<lparr>classList = [''scrollbar''], css_opacity = Some (Fin 0.2),
     css_height = Some (Px (Fin 850)), css_top = Some (Px (Fin 75)), css_right = None,
     css_backgroundColor = None, css_transform = None\<rparr>"

definition ex_thumb :: elem where
  "ex_thumb = \<lparr>classList = [''scrollbar-indicator''], css_opacity = None,
     css_height = Some (Px (Fin (850 / 3))), css_top = None, css_right = None,
     css_backgroundColor = None, css_transform = Some (Fin 0)\<rparr>"

definition ex_scrollbar :: Scrollbar where
  "ex_scrollbar = \<lparr>element = Some ex_track, indicator = Some ex_thumb,
     percentage = Fin 0.85, velocity = Fin 2, containerColor = None,
     indicatorColor = None, scrollTimeout = None, right = None,
     style = \<lparr>st_opacity = Fin 0.2, st_height = Some (Px (Fin 850)),
               st_top = Some (Px (Fin 75)), st_right = None\<rparr>,
     isDragging = False, startY = Fin 0, startScrollTop = Fin 0,
     isScrollbarNeeded = True\<rparr>"

definition ex_browser :: browser where
  "ex_browser = \<lparr>listeners = track_listeners @ window_listeners, userSelect = '''',
     scrollRequests = [], timers = [], nextTimer = 1, now = 0, appended = 1\<rparr>"

text \<open>The world after \<open>new Scrollbar(ex_param).init()\<close> on that page.\<close>

definition ex_world :: world where
  "ex_world = (ex_scrollbar, ex_browser)"

text \<open>A drag that started at pointer position 300 with the page scrolled to 500.\<close>

definition ex_drag_world :: world where
  "ex_drag_world =
     (ex_scrollbar\<lparr>isDragging := True, startY := Fin 300, startScrollTop := Fin 500\<rparr>,
      ex_browser)"

text \<open>The window has grown to the height of the content: nothing is left to scroll.\<close>

definition ex_fit_env :: env where
  "ex_fit_env = \<lparr>innerHeight = 1000, scrollY = 0, docScrollTop = 0, docScrollHeight = 1000,
     parent = ex_body\<lparr>scrollHeight := 1000, rectHeight := 1000\<rparr>,
     trackClientHeight = 850\<rparr>"

text \<open>
  A body of scrollHeight 2000 with margins in a document of 2500, the window 1000px
  high and the page scrolled to its end, 1500; the track renders 800px high.
\<close>

definition ex_over_env :: env where
  "ex_over_env = \<lparr>innerHeight = 1000, scrollY = 1500, docScrollTop = 1500,
     docScrollHeight = 2500,
     parent = ex_body\<lparr>scrollHeight := 2000, rectHeight := 2000\<rparr>,
     trackClientHeight = 800\<rparr>"

text \<open>The window is as high as the content, 3000px; the track renders 2550px high.\<close>

definition ex_tall_env :: env where
  "ex_tall_env = \<lparr>innerHeight = 3000, scrollY = 0, docScrollTop = 0, docScrollHeight = 3000,
     parent = ex_body, trackClientHeight = 2550\<rparr>"

text \<open>A page that fits its window.\<close>

definition ex_short_env :: env where
  "ex_short_env = \<lparr>innerHeight = 1000, scrollY = 0, docScrollTop = 0,
     docScrollHeight = 800,
     parent = ex_body\<lparr>scrollHeight := 800, rectHeight := 800\<rparr>,
     trackClientHeight = 0\<rparr>"


text \<open>A scroll event and one second.\<close>

definition ex_scroll_wait :: "event list" where
  "ex_scroll_wait = [Dispatch Window ''scroll'' ex_env 0, Elapse 1000]"



text \<open>A scroll event, and the pointer entering the track one second later.\<close>

definition ex_scroll_hover :: "event list" where
  "ex_scroll_hover = ex_scroll_wait @ [Dispatch Track ''mouseenter'' ex_env 0]"


section \<open>Arithmetic of the layout\<close>

lemma jsub_Fin [simp]: "jsub (Fin a) (Fin b) = Fin (a - b)"
  by (simp add: jsub_def)

lemma baseCalcul_min: "baseCalcul e = min (rectHeight (parent e)) (innerHeight e)"
  by (simp add: baseCalcul_def parentHeight_def min_def)

lemma updateIndicator_Some:
  "element (fst w) = Some el \<Longrightarrow> indicator (fst w) = Some ind \<Longrightarrow>
   updateIndicator e w =
     Inr ((fst w)\<lparr>indicator :=
            Some (ind\<lparr>css_height := Some (Px (progressHeight e)),
                      css_transform := Some (indicatorTop e)\<rparr>)\<rparr>, snd w)"
  by (simp add: updateIndicator_def)

lemma progressHeight_Fin:
  "scrollHeight (parent e) \<noteq> 0 \<Longrightarrow>
   progressHeight e = Fin (innerHeight e / scrollHeight (parent e) * trackClientHeight e)"
  by (simp add: progressHeight_def)

lemma scrollPercent_Fin:
  "scrollHeight (parent e) \<noteq> innerHeight e \<Longrightarrow>
   scrollPercent e = Fin (scrollTop e / (scrollHeight (parent e) - innerHeight e))"
  by (simp add: scrollPercent_def totalHeight_def)

lemma indicatorTop_Fin:
  "scrollHeight (parent e) \<noteq> 0 \<Longrightarrow> scrollHeight (parent e) \<noteq> innerHeight e \<Longrightarrow>
   indicatorTop e =
     Fin (scrollTop e / (scrollHeight (parent e) - innerHeight e)
          * (trackClientHeight e
             - innerHeight e / scrollHeight (parent e) * trackClientHeight e))"
  by (simp add: indicatorTop_def scrollPercent_Fin progressHeight_Fin)

lemma scrollPercent_zero_range:
  "scrollHeight (parent e) = innerHeight e \<Longrightarrow>
   scrollPercent e = (if 0 < scrollTop e then PInf else if scrollTop e < 0 then NInf else NaN)"
  by (simp add: scrollPercent_def totalHeight_def)

lemma room_zero_range:
  "scrollHeight (parent e) = innerHeight e \<Longrightarrow>
   jsub (Fin (trackClientHeight e)) (progressHeight e) = Fin 0 \<or>
   jsub (Fin (trackClientHeight e)) (progressHeight e) = NaN"
  by (cases "innerHeight e = 0") (simp_all add: progressHeight_def jsub_def)

lemma indicatorTop_zero_range:
  assumes "scrollHeight (parent e) = innerHeight e"
  shows "indicatorTop e = NaN"
proof -
  have sp: "scrollPercent e = PInf \<or> scrollPercent e = NInf \<or> scrollPercent e = NaN"
    using assms by (simp add: scrollPercent_zero_range)
  from room_zero_range [OF assms] sp show ?thesis
    by (auto simp: indicatorTop_def)
qed


section \<open>Construction\<close>

lemma init_not_needed: "\<not> isScrollbarNeeded (fst w) \<Longrightarrow> init e w = Inr w"
  by (simp add: init_def)

lemma constructor_Some_not_needed:
  "\<not> needsScrollbar e p \<Longrightarrow>
   constructor e (Some p) parameters br =
     Inr (\<lparr>element = None, indicator = None,
           percentage = p_percentage parameters,
           velocity = (case p_velocity parameters of None \<Rightarrow> Fin 1 | Some v \<Rightarrow> v),
           containerColor = p_containerColor parameters,
           indicatorColor = p_indicatorColor parameters,
           scrollTimeout = None,
           right = p_right parameters,
           style = \<lparr>st_opacity = opacityTarget, st_height = None,
                     st_top = None, st_right = None\<rparr>,
           isDragging = False,
           startY = Fin 0,
           startScrollTop = Fin 0,
           isScrollbarNeeded = False\<rparr>, br)"
  by (simp add: constructor_def)

lemma constructor_cases:
  assumes "constructor e found prm br = Inr w"
  shows "snd w = br \<and> scrollTimeout (fst w) = None \<and> \<not> isScrollbarNeeded (fst w) \<or>
         snd w = br\<lparr>appended := appended br + 1\<rparr> \<and> scrollTimeout (fst w) = None \<and>
         wired w \<and> isScrollbarNeeded (fst w)"
proof (cases found)
  case None
  with assms show ?thesis by (simp add: constructor_def)
next
  case (Some p)
  show ?thesis
  proof (cases "needsScrollbar e p")
    case True
    with assms Some show ?thesis
      by (auto simp: constructor_def createElements_def wired_def)
  next
    case False
    with assms Some show ?thesis
      by (auto simp: constructor_def)
  qed
qed

lemma Colors_wired:
  "wired w \<Longrightarrow> \<exists>w'. Colors w = Inr w' \<and> wired w' \<and> snd w' = snd w \<and>
      scrollTimeout (fst w') = scrollTimeout (fst w) \<and>
      isScrollbarNeeded (fst w') = isScrollbarNeeded (fst w)"
  by (cases w) (auto simp: Colors_def wired_def)

lemma defineStyle_wired:
  "wired w \<Longrightarrow> \<exists>w'. defineStyle e w = Inr w' \<and> wired w' \<and>
      scrollTimeout (fst w') = scrollTimeout (fst w) \<and>
      isScrollbarNeeded (fst w') = isScrollbarNeeded (fst w) \<and>
      snd w' = (snd w)\<lparr>listeners := listeners (snd w) @ track_listeners\<rparr>"
  by (auto simp: defineStyle_def updateScrollbar_def wired_def Let_def addEventListener_def
      track_listeners_def)

lemma updateIndicator_wired:
  "wired w \<Longrightarrow> \<exists>w'. updateIndicator e w = Inr w' \<and> wired w' \<and> snd w' = snd w \<and>
      scrollTimeout (fst w') = scrollTimeout (fst w) \<and>
      isScrollbarNeeded (fst w') = isScrollbarNeeded (fst w)"
  by (auto simp: updateIndicator_def wired_def)

lemma init_wired:
  assumes "wired w" and "isScrollbarNeeded (fst w)"
  shows "\<exists>w'. init e w = Inr w' \<and> wired w' \<and> isScrollbarNeeded (fst w') \<and>
           scrollTimeout (fst w') = scrollTimeout (fst w) \<and>
           snd w' = (snd w)\<lparr>listeners := listeners (snd w) @ track_listeners @ window_listeners\<rparr>"
proof -
  obtain w1 where 1: "(if truthy_str (containerColor (fst w)) \<or> truthy_str (indicatorColor (fst w))
               then Colors w else Inr w) = Inr w1"
    and w1: "wired w1" and s1: "snd w1 = snd w"
    and t1: "scrollTimeout (fst w1) = scrollTimeout (fst w)"
    and n1: "isScrollbarNeeded (fst w1) = isScrollbarNeeded (fst w)"
    using Colors_wired [OF assms(1)] assms(1)
    by (cases "truthy_str (containerColor (fst w)) \<or> truthy_str (indicatorColor (fst w))") auto
  from defineStyle_wired [OF w1, of e] obtain w2 where 2: "defineStyle e w1 = Inr w2"
    and w2: "wired w2" and t2: "scrollTimeout (fst w2) = scrollTimeout (fst w1)"
    and n2: "isScrollbarNeeded (fst w2) = isScrollbarNeeded (fst w1)"
    and s2: "snd w2 = (snd w1)\<lparr>listeners := listeners (snd w1) @ track_listeners\<rparr>"
    by blast
  from updateIndicator_wired [OF w2, of e] obtain w3 where 3: "updateIndicator e w2 = Inr w3"
    and w3: "wired w3" and s3: "snd w3 = snd w2"
    and t3: "scrollTimeout (fst w3) = scrollTimeout (fst w2)"
    and n3: "isScrollbarNeeded (fst w3) = isScrollbarNeeded (fst w2)"
    by blast
  from w3 obtain ind where ind: "indicator (fst w3) = Some ind" by (auto simp: wired_def)
  have "init e w = Inr (fst w3,
                            addEventListener Window ''mouseup'' CallStopDrag
                              (addEventListener Window ''mousemove'' CallOnDrag
                                 (addEventListener Thumb ''mousedown'' CallStartDrag
                                    (addEventListener Window ''resize'' CallDefineStyle
                                       (addEventListener Window ''scroll'' CallHandleScroll
                                          (snd w3))))))"
    unfolding init_def using assms(2) 1 2 3 ind by simp
  moreover have "wired (fst w3, b)" for b using w3 by (simp add: wired_def)
  ultimately show ?thesis using t1 t2 t3 s1 s2 s3 n1 n2 n3 assms(2)
    by (simp add: addEventListener_def window_listeners_def)
qed


section \<open>The handlers and the invariants\<close>

lemma frame_refl: "wired w \<Longrightarrow> frame w w"
  by (simp add: frame_def)

lemma frame_trans: "frame w w1 \<Longrightarrow> frame w1 w2 \<Longrightarrow> frame w w2"
proof -
  assume a: "frame w w1" and b: "frame w1 w2"
  from a obtain l1 where l1: "listeners (snd w1) = listeners (snd w) @ l1"
    and s1: "set l1 \<subseteq> set track_listeners" unfolding frame_def by blast
  from b obtain l2 where l2: "listeners (snd w2) = listeners (snd w1) @ l2"
    and s2: "set l2 \<subseteq> set track_listeners" unfolding frame_def by blast
  have "listeners (snd w2) = listeners (snd w) @ (l1 @ l2)" using l1 l2 by simp
  moreover have "set (l1 @ l2) \<subseteq> set track_listeners" using s1 s2 by simp
  ultimately have "\<exists>ls. listeners (snd w2) = listeners (snd w) @ ls \<and> set ls \<subseteq> set track_listeners"
    by blast
  with a b show ?thesis unfolding frame_def by simp
qed

lemma styleActivity_Some:
  "element (fst w) = Some el \<Longrightarrow>
   styleActivity opacity w =
     Inr ((fst w)\<lparr>element := Some (el\<lparr>css_opacity := Some opacity\<rparr>)\<rparr>, snd w)"
  by (simp add: styleActivity_def)

lemma styleActivity_frame:
  "wired w \<Longrightarrow> \<exists>w'. styleActivity opacity w = Inr w' \<and> frame w w'"
  by (auto simp: wired_def styleActivity_def frame_def)

lemma defineStyle_frame:
  "wired w \<Longrightarrow> \<exists>w'. defineStyle e w = Inr w' \<and> frame w w'"
proof -
  assume w: "wired w"
  from defineStyle_wired [OF w, of e] obtain w' where "defineStyle e w = Inr w'"
    and "wired w'" and "scrollTimeout (fst w') = scrollTimeout (fst w)"
    and "isScrollbarNeeded (fst w') = isScrollbarNeeded (fst w)"
    and "snd w' = (snd w)\<lparr>listeners := listeners (snd w) @ track_listeners\<rparr>"
    by blast
  then show ?thesis by (simp add: frame_def)
qed

lemma startDrag_frame: "wired w \<Longrightarrow> \<exists>w'. startDrag e y w = Inr w' \<and> frame w w'"
  by (simp add: wired_def startDrag_def frame_def)

lemma stopDrag_frame: "wired w \<Longrightarrow> \<exists>w'. stopDrag w = Inr w' \<and> frame w w'"
  by (simp add: wired_def stopDrag_def frame_def)

lemma onDrag_not_dragging: "\<not> isDragging (fst w) \<Longrightarrow> onDrag e y w = Inr w"
  by (simp add: onDrag_def)

lemma onDrag_frame: "wired w \<Longrightarrow> \<exists>w'. onDrag e y w = Inr w' \<and> frame w w'"
proof (cases "isDragging (fst w)")
  case True
  assume "wired w"
  with True show ?thesis by (auto simp: wired_def onDrag_def frame_def Let_def)
next
  case False
  assume "wired w"
  with False show ?thesis by (simp add: onDrag_not_dragging frame_refl)
qed

lemma run_handler_frame:
  "wired w \<Longrightarrow> h \<noteq> CallHandleScroll \<Longrightarrow> \<exists>w'. run_handler h e y w = Inr w' \<and> frame w w'"
  using styleActivity_frame defineStyle_frame startDrag_frame stopDrag_frame onDrag_frame
  by (cases h) simp_all

lemma run_handlers_frame:
  "wired w \<Longrightarrow> \<forall>h\<in>set hs. h \<noteq> CallHandleScroll \<Longrightarrow>
   \<exists>w'. run_handlers hs e y w = Inr w' \<and> frame w w'"
proof (induction hs arbitrary: w)
  case Nil
  then show ?case by (simp add: frame_refl)
next
  case (Cons h hs)
  from Cons.prems obtain w1 where 1: "run_handler h e y w = Inr w1" and f1: "frame w w1"
    using run_handler_frame [of w h e y] by auto
  from f1 have "wired w1" by (simp add: frame_def)
  with Cons.IH [of w1] Cons.prems obtain w2
    where 2: "run_handlers hs e y w1 = Inr w2" and f2: "frame w1 w2" by auto
  from 1 2 frame_trans [OF f1 f2] show ?case by simp
qed

lemma run_handlers_styleActivity:
  "element (fst w) = Some el \<Longrightarrow> hs \<noteq> [] \<Longrightarrow> \<forall>h\<in>set hs. h = CallStyleActivity opacity \<Longrightarrow>
   run_handlers hs e y w =
     Inr ((fst w)\<lparr>element := Some (el\<lparr>css_opacity := Some opacity\<rparr>)\<rparr>, snd w)"
proof (induction hs arbitrary: w el)
  case Nil
  then show ?case by simp
next
  case (Cons h hs)
  let ?w1 = "((fst w)\<lparr>element := Some (el\<lparr>css_opacity := Some opacity\<rparr>)\<rparr>, snd w)"
  have 1: "run_handler h e y w = Inr ?w1"
    using Cons.prems by (simp add: styleActivity_Some)
  show ?case
  proof (cases "hs = []")
    case True
    with 1 show ?thesis by simp
  next
    case False
    have "run_handlers hs e y ?w1 =
        Inr ((fst ?w1)\<lparr>element := Some ((el\<lparr>css_opacity := Some opacity\<rparr>)\<lparr>css_opacity := Some opacity\<rparr>)\<rparr>, snd ?w1)"
      using Cons.prems False by (intro Cons.IH) simp_all
    with 1 show ?thesis by simp
  qed
qed

lemma handleScroll_effect:
  assumes "wired w" and "timer_inv s w"
  shows "\<exists>w'. handleScroll e w = Inr w' \<and> wired w' \<and>
           isScrollbarNeeded (fst w') = isScrollbarNeeded (fst w) \<and>
           listeners (snd w') = listeners (snd w) \<and> now (snd w') = now (snd w) \<and>
           timers (snd w') = [(nextTimer (snd w), now (snd w) + 2000)] \<and>
           scrollTimeout (fst w') = Some (nextTimer (snd w)) \<and>
           nextTimer (snd w') = nextTimer (snd w) + 1 \<and>
           trackOpacity (Inr w') = Some opacityBasic"
proof -
  from assms(1) obtain el ind where el: "element (fst w) = Some el"
    and ind: "indicator (fst w) = Some ind" by (auto simp: wired_def)
  from assms(2) have cases: "timers (snd w) = [] \<or>
      (\<exists>i d. timers (snd w) = [(i, d)] \<and> scrollTimeout (fst w) = Some i \<and> 0 < i)"
    by (auto simp: timer_inv_def)
  then show ?thesis
  proof
    assume "timers (snd w) = []"
    then show ?thesis using el ind
      by (cases "scrollTimeout (fst w)")
        (simp_all add: handleScroll_def styleActivity_def updateIndicator_def Let_def
          setTimeout_def clearTimeout_def timeTriggerScroll_def wired_def trackOpacity_def)
  next
    assume "\<exists>i d. timers (snd w) = [(i, d)] \<and> scrollTimeout (fst w) = Some i \<and> 0 < i"
    then obtain i d where "timers (snd w) = [(i, d)]" "scrollTimeout (fst w) = Some i" "0 < i"
      by blast
    then show ?thesis using el ind
      by (simp add: handleScroll_def styleActivity_def updateIndicator_def Let_def
          setTimeout_def clearTimeout_def timeTriggerScroll_def wired_def truthy_id_def
          trackOpacity_def)
  qed
qed

lemma handleScroll_timer_inv:
  assumes "wired w" and "timer_inv s w" and "handleScroll e w = Inr w'"
  shows "timer_inv (Some (now (snd w))) w'"
  using handleScroll_effect [OF assms(1,2), of e] assms(2,3)
  by (auto simp: timer_inv_def)

lemma frame_timer_inv: "frame w w' \<Longrightarrow> timer_inv s w \<Longrightarrow> timer_inv s w'"
  by (simp add: frame_def timer_inv_def)

lemma track_listeners_Track: "l \<in> set track_listeners \<Longrightarrow> fst l = Track"
  by (auto simp: track_listeners_def)

lemma frame_wiring_inv:
  assumes f: "frame w w'" and n: "isScrollbarNeeded (fst w)" and wi: "wiring_inv w"
  shows "wiring_inv w'"
proof -
  from f obtain ls where ls: "listeners (snd w') = listeners (snd w) @ ls"
    and tr: "set ls \<subseteq> set track_listeners"
    and w': "wired w'" and n': "isScrollbarNeeded (fst w')"
    using n unfolding frame_def by auto
  from wi n have a: "filter (\<lambda>l. fst l \<noteq> Track) (listeners (snd w)) = window_listeners"
    and b: "set (filter (\<lambda>l. fst l = Track) (listeners (snd w))) = set track_listeners"
    by (simp_all add: wiring_inv_def)
  have allT: "\<forall>l\<in>set ls. fst l = Track" using tr track_listeners_Track by blast
  then have 1: "filter (\<lambda>l. fst l \<noteq> Track) ls = []" by (simp add: filter_empty_conv)
  have 2: "filter (\<lambda>l. fst l = Track) ls = ls" using allT by (simp add: filter_id_conv)
  have a': "filter (\<lambda>l. fst l \<noteq> Track) (listeners (snd w')) = window_listeners"
    using ls a 1 by simp
  have b': "set (filter (\<lambda>l. fst l = Track) (listeners (snd w'))) = set track_listeners"
    using ls b 2 tr by auto
  from w' n' a' b' show ?thesis by (simp add: wiring_inv_def)
qed

lemma scroll_handlers:
  assumes "filter (\<lambda>l. fst l \<noteq> Track) ls = window_listeners"
  shows "map (\<lambda>l. snd (snd l)) (filter (\<lambda>l. fst l = Window \<and> fst (snd l) = ''scroll'') ls)
         = [CallHandleScroll]"
proof -
  have "filter (\<lambda>l. fst l = Window \<and> fst (snd l) = ''scroll'') ls
      = filter (\<lambda>l. fst l = Window \<and> fst (snd l) = ''scroll'') (filter (\<lambda>l. fst l \<noteq> Track) ls)"
    unfolding filter_filter by (rule filter_cong) auto
  also have "\<dots> = [(Window, ''scroll'', CallHandleScroll)]"
    unfolding assms by (simp add: window_listeners_def)
  finally show ?thesis by simp
qed

lemma other_handlers:
  assumes a: "filter (\<lambda>l. fst l \<noteq> Track) ls = window_listeners"
    and b: "set (filter (\<lambda>l. fst l = Track) ls) = set track_listeners"
    and c: "\<not> (tg = Window \<and> nm = ''scroll'')"
  shows "\<forall>h\<in>set (map (\<lambda>l. snd (snd l)) (filter (\<lambda>l. fst l = tg \<and> fst (snd l) = nm) ls)).
           h \<noteq> CallHandleScroll"
proof -
  have "snd (snd l) \<noteq> CallHandleScroll"
    if l: "l \<in> set ls" and m: "fst l = tg \<and> fst (snd l) = nm" for l
  proof (cases "fst l = Track")
    case True
    with l have "l \<in> set (filter (\<lambda>l. fst l = Track) ls)" by simp
    with b have "l \<in> set track_listeners" by simp
    then show ?thesis by (auto simp: track_listeners_def)
  next
    case False
    with l have "l \<in> set (filter (\<lambda>l. fst l \<noteq> Track) ls)" by simp
    with a have "l \<in> set window_listeners" by simp
    with m c show ?thesis by (auto simp: window_listeners_def)
  qed
  then show ?thesis by auto
qed

lemma enter_handlers:
  assumes b: "set (filter (\<lambda>l. fst l = Track) ls) = set track_listeners"
  shows "map (\<lambda>l. snd (snd l)) (filter (\<lambda>l. fst l = Track \<and> fst (snd l) = ''mouseenter'') ls) \<noteq> [] \<and>
         (\<forall>h\<in>set (map (\<lambda>l. snd (snd l))
                   (filter (\<lambda>l. fst l = Track \<and> fst (snd l) = ''mouseenter'') ls)).
            h = CallStyleActivity opacityBasic)"
proof
  have "(Track, ''mouseenter'', CallStyleActivity opacityBasic) \<in> set track_listeners"
    by (simp add: track_listeners_def)
  with b have "(Track, ''mouseenter'', CallStyleActivity opacityBasic)
      \<in> set (filter (\<lambda>l. fst l = Track) ls)" by simp
  then have "(Track, ''mouseenter'', CallStyleActivity opacityBasic)
      \<in> set (filter (\<lambda>l. fst l = Track \<and> fst (snd l) = ''mouseenter'') ls)" by simp
  then have "filter (\<lambda>l. fst l = Track \<and> fst (snd l) = ''mouseenter'') ls \<noteq> []"
    by (metis empty_iff empty_set)
  then show "map (\<lambda>l. snd (snd l)) (filter (\<lambda>l. fst l = Track \<and> fst (snd l) = ''mouseenter'') ls) \<noteq> []"
    by simp
next
  have "snd (snd l) = CallStyleActivity opacityBasic"
    if l: "l \<in> set ls" and m: "fst l = Track \<and> fst (snd l) = ''mouseenter''" for l
  proof -
    from l m have "l \<in> set (filter (\<lambda>l. fst l = Track) ls)" by simp
    with b have "l \<in> set track_listeners" by simp
    with m show ?thesis by (auto simp: track_listeners_def)
  qed
  then show "\<forall>h\<in>set (map (\<lambda>l. snd (snd l))
                   (filter (\<lambda>l. fst l = Track \<and> fst (snd l) = ''mouseenter'') ls)).
            h = CallStyleActivity opacityBasic"
    by auto
qed

lemma dispatch_scroll:
  assumes "debounce_inv s w" and "isScrollbarNeeded (fst w)"
  shows "dispatch Window ''scroll'' e y w = handleScroll e w"
proof -
  from assms have "filter (\<lambda>l. fst l \<noteq> Track) (listeners (snd w)) = window_listeners"
    by (simp add: debounce_inv_def wiring_inv_def)
  from scroll_handlers [OF this] show ?thesis
    by (simp add: dispatch_def split: sum.splits)
qed

lemma dispatch_inv:
  assumes "debounce_inv s w"
  shows "\<exists>w'. dispatch tg nm e y w = Inr w' \<and> now (snd w') = now (snd w) \<and>
           debounce_inv (if tg = Window \<and> nm = ''scroll'' then Some (now (snd w)) else s) w'"
proof (cases "isScrollbarNeeded (fst w)")
  case False
  with assms have "listeners (snd w) = []" and "timers (snd w) = []"
    by (simp_all add: debounce_inv_def wiring_inv_def)
  with False assms show ?thesis
    by (auto simp: dispatch_def debounce_inv_def timer_inv_def)
next
  case True
  with assms have w: "wired w"
    and a: "filter (\<lambda>l. fst l \<noteq> Track) (listeners (snd w)) = window_listeners"
    and b: "set (filter (\<lambda>l. fst l = Track) (listeners (snd w))) = set track_listeners"
    and ti: "timer_inv s w" and wi: "wiring_inv w"
    by (simp_all add: debounce_inv_def wiring_inv_def)
  show ?thesis
  proof (cases "tg = Window \<and> nm = ''scroll''")
    case T: True
    from handleScroll_effect [OF w ti, of e] obtain w'
      where r: "handleScroll e w = Inr w'" and w': "wired w'"
        and n': "isScrollbarNeeded (fst w') = isScrollbarNeeded (fst w)"
        and l: "listeners (snd w') = listeners (snd w)" and n: "now (snd w') = now (snd w)"
      by blast
    have t: "timer_inv (Some (now (snd w))) w'"
      using handleScroll_timer_inv [OF w ti r] .
    have "wiring_inv w'" using w' l a b n' True by (simp add: wiring_inv_def)
    with r n t T dispatch_scroll [OF assms True, of e y] show ?thesis
      by (simp add: debounce_inv_def)
  next
    case F: False
    let ?hs = "map (\<lambda>l. snd (snd l))
          (filter (\<lambda>l. fst l = tg \<and> fst (snd l) = nm) (listeners (snd w)))"
    have h: "\<forall>h\<in>set ?hs. h \<noteq> CallHandleScroll"
      using other_handlers [OF a b F] .
    from run_handlers_frame [OF w h, of e y] obtain w'
      where r: "run_handlers ?hs e y w = Inr w'" and f: "frame w w'" by blast
    have "timer_inv s w'" using f ti by (rule frame_timer_inv)
    moreover have "wiring_inv w'" using f True wi by (rule frame_wiring_inv)
    moreover have "now (snd w') = now (snd w)" using f by (simp add: frame_def)
    ultimately show ?thesis using r F by (auto simp: dispatch_def debounce_inv_def)
  qed
qed

lemma elapse_early:
  assumes "\<forall>t\<in>set (timers (snd w)). now (snd w) + d < snd t"
  shows "elapse d w = Inr (fst w, (snd w)\<lparr>now := now (snd w) + d\<rparr>)"
proof -
  have 1: "filter (\<lambda>x. snd x \<le> now (snd w) + d) (timers (snd w)) = []"
    using assms by (auto simp: filter_empty_conv)
  have 2: "filter (\<lambda>x. \<not> snd x \<le> now (snd w) + d) (timers (snd w)) = timers (snd w)"
    using assms by (auto simp: filter_id_conv)
  show ?thesis by (simp add: elapse_def Let_def 1 2)
qed

lemma elapse_due:
  assumes "timers (snd w) = [t]" and "snd t \<le> now (snd w) + d" and "element (fst w) = Some el"
  shows "elapse d w =
     Inr ((fst w)\<lparr>element := Some (el\<lparr>css_opacity := Some opacityTarget\<rparr>)\<rparr>,
          (snd w)\<lparr>now := now (snd w) + d, timers := []\<rparr>)"
  using assms by (simp add: elapse_def Let_def styleActivity_def)

lemma wiring_inv_mono:
  assumes "wiring_inv w" and "isScrollbarNeeded (fst w') = isScrollbarNeeded (fst w)"
    and "wired w \<Longrightarrow> wired w'" and "listeners (snd w') = listeners (snd w)"
    and "timers (snd w) = [] \<Longrightarrow> timers (snd w') = []"
  shows "wiring_inv w'"
proof (cases "isScrollbarNeeded (fst w)")
  case True
  with assms show ?thesis by (simp add: wiring_inv_def)
next
  case False
  with assms show ?thesis by (simp add: wiring_inv_def)
qed

lemma elapse_inv:
  assumes "debounce_inv s w"
  shows "\<exists>w'. elapse d w = Inr w' \<and> now (snd w') = now (snd w) + d \<and> debounce_inv s w'"
proof (cases "\<forall>t\<in>set (timers (snd w)). now (snd w) + d < snd t")
  case True
  let ?w' = "(fst w, (snd w)\<lparr>now := now (snd w) + d\<rparr>)"
  from assms have ti: "timer_inv s w" and wi: "wiring_inv w" by (simp_all add: debounce_inv_def)
  have "timer_inv s ?w'" using ti True by (auto simp: timer_inv_def)
  moreover have "wiring_inv ?w'" using wi by (rule wiring_inv_mono) (simp_all add: wired_def)
  ultimately show ?thesis using elapse_early [OF True] by (simp add: debounce_inv_def)
next
  case False
  from assms have ti: "timer_inv s w" and wi: "wiring_inv w" by (simp_all add: debounce_inv_def)
  from False ti obtain i sc where t: "timers (snd w) = [(i, sc + 2000)]"
    and due: "sc + 2000 \<le> now (snd w) + d"
    by (auto simp: timer_inv_def)
  have "wired w"
  proof (cases "isScrollbarNeeded (fst w)")
    case True
    with wi show ?thesis by (simp add: wiring_inv_def)
  next
    case False
    with wi t show ?thesis by (simp add: wiring_inv_def)
  qed
  then obtain el where el: "element (fst w) = Some el" by (auto simp: wired_def)
  let ?w' = "((fst w)\<lparr>element := Some (el\<lparr>css_opacity := Some opacityTarget\<rparr>)\<rparr>,
          (snd w)\<lparr>now := now (snd w) + d, timers := []\<rparr>)"
  have e: "elapse d w = Inr ?w'" using elapse_due [OF t _ el, of d] due by simp
  have "timer_inv s ?w'" using ti by (simp add: timer_inv_def)
  moreover have "wiring_inv ?w'" using wi by (rule wiring_inv_mono) (simp_all add: wired_def)
  ultimately show ?thesis using e by (simp add: debounce_inv_def)
qed

lemma run_inv:
  "debounce_inv s w \<Longrightarrow>
   \<exists>w'. run evs w = Inr w' \<and> debounce_inv (last_scroll (now (snd w)) s evs) w'"
proof (induction evs arbitrary: s w)
  case Nil
  then show ?case by simp
next
  case (Cons ev evs)
  show ?case
  proof (cases ev)
    case (Dispatch tg nm e y)
    from dispatch_inv [OF Cons.prems, of tg nm e y] obtain w1
      where 1: "dispatch tg nm e y w = Inr w1" and n: "now (snd w1) = now (snd w)"
        and i: "debounce_inv (if tg = Window \<and> nm = ''scroll'' then Some (now (snd w)) else s) w1"
      by blast
    from Cons.IH [OF i] 1 n Dispatch show ?thesis by simp
  next
    case (Elapse d)
    from elapse_inv [OF Cons.prems, of d] obtain w1
      where 1: "elapse d w = Inr w1" and n: "now (snd w1) = now (snd w) + d"
        and i: "debounce_inv s w1"
      by blast
    from Cons.IH [OF i] 1 n Elapse show ?thesis by simp
  qed
qed

lemma start_inv:
  assumes "listeners br = []" and "timers br = []" and "0 < nextTimer br"
    and "start e found prm br = Inr w"
  shows "debounce_inv None w \<and> now (snd w) = now br"
proof -
  from assms(4) obtain w0 where c: "constructor e found prm br = Inr w0"
    and i: "init e w0 = Inr w"
    by (auto simp: start_def split: sum.splits)
  from constructor_cases [OF c] show ?thesis
  proof
    assume a: "snd w0 = br \<and> scrollTimeout (fst w0) = None \<and> \<not> isScrollbarNeeded (fst w0)"
    with i have "w = w0" by (simp add: init_def)
    with a assms show ?thesis by (simp add: debounce_inv_def timer_inv_def wiring_inv_def)
  next
    assume a: "snd w0 = br\<lparr>appended := appended br + 1\<rparr> \<and> scrollTimeout (fst w0) = None \<and>
         wired w0 \<and> isScrollbarNeeded (fst w0)"
    then have w0: "wired w0" and n0: "isScrollbarNeeded (fst w0)" by simp_all
    from init_wired [OF w0 n0, of e] obtain w' where i': "init e w0 = Inr w'"
      and w': "wired w'" and n': "isScrollbarNeeded (fst w')"
      and t': "scrollTimeout (fst w') = scrollTimeout (fst w0)"
      and s': "snd w' = (snd w0)\<lparr>listeners := listeners (snd w0) @ track_listeners @ window_listeners\<rparr>"
      by blast
    from i i' have ww: "w' = w" by simp
    have ti: "timer_inv None w" using a assms t' s' ww by (simp add: timer_inv_def)
    have f1: "filter (\<lambda>l. fst l \<noteq> Track) (track_listeners @ window_listeners) = window_listeners"
      by (simp add: track_listeners_def window_listeners_def)
    have f2: "filter (\<lambda>l. fst l = Track) (track_listeners @ window_listeners) = track_listeners"
      by (simp add: track_listeners_def window_listeners_def)
    have wi: "wiring_inv w" using a assms w' n' s' ww f1 f2
      by (simp add: wiring_inv_def)
    from ti wi a assms s' ww show ?thesis by (simp add: debounce_inv_def)
  qed
qed

lemma reachable_inv:
  assumes "listeners br = []" and "timers br = []" and "0 < nextTimer br"
    and "start e found prm br = Inr w0"
  shows "\<exists>w. run evs w0 = Inr w \<and> debounce_inv (last_scroll (now br) None evs) w"
  using run_inv [of None w0 evs] start_inv [OF assms] by simp











section \<open>Evaluating the concrete inputs\<close>

lemmas ex_defs = ex_body_def ex_env_def ex_param_def ex_track_def ex_thumb_def
  ex_scrollbar_def ex_browser_def ex_world_def track_listeners_def window_listeners_def
  browser0_def opacityBasic_def opacityTarget_def

lemmas method_defs = start_def constructor_def init_def needsScrollbar_def toLowerCase_def
  lower_char_def createElements_def createElement_def Colors_def defineStyle_def
  updateScrollbar_def updateIndicator_def baseCalcul_def parentHeight_def truthy_str_def
  truthy_id_def jsub_def progressHeight_def indicatorTop_def scrollPercent_def
  totalHeight_def scrollTop_def num_or_def addEventListener_def Let_def handleScroll_def
  styleActivity_def setTimeout_def clearTimeout_def timeTriggerScroll_def dispatch_def
  elapse_def onDrag_def startDrag_def stopDrag_def

lemma start_ex_world: "start ex_env (Some ex_body) ex_param browser0 = Inr ex_world"
  by (simp add: ex_defs method_defs)


lemma run_ex_scroll_wait:
  "\<exists>w. run ex_scroll_wait ex_world = Inr w \<and> timers (snd w) = [(1, 2000)] \<and>
       now (snd w) = 1000 \<and> isScrollbarNeeded (fst w)"
  by (simp add: ex_defs method_defs ex_scroll_wait_def)


section \<open>The claims\<close>

text \<open>
  C1. Every layout pass (\<open>defineStyle\<close>) computes the base as the smaller of the
  host's rendered height and \<open>window.innerHeight\<close>, the track height as base times
  percentage and the track top as (base - height) / 2, records the resting opacity
  0.2, and applies a configured right offset; the same values reach the track
  element. For a finite percentage the values are the real numbers of these
  formulas, and top + height / 2 = base / 2.
\<close>

theorem defineStyle_geometry:
  assumes "element (fst w) = Some el"
  shows "\<exists>w' el'. defineStyle e w = Inr w' \<and> element (fst w') = Some el' \<and>
     st_height (style (fst w')) =
       Some (Px (jmul (Fin (min (rectHeight (parent e)) (innerHeight e))) (percentage (fst w)))) \<and>
     st_top (style (fst w')) =
       Some (Px (jdiv (jsub (Fin (min (rectHeight (parent e)) (innerHeight e)))
                            (jmul (Fin (min (rectHeight (parent e)) (innerHeight e)))
                                  (percentage (fst w))))
                      (Fin 2))) \<and>
     st_opacity (style (fst w')) = Fin 0.2 \<and>
     st_opacity (style (fst w')) = opacityTarget \<and>
     css_height el' = st_height (style (fst w')) \<and>
     css_top el' = st_top (style (fst w')) \<and>
     css_opacity el' = Some opacityTarget \<and>
     (truthy_str (right (fst w)) \<longrightarrow>
        st_right (style (fst w')) = right (fst w) \<and> css_right el' = right (fst w)) \<and>
     (\<forall>p. percentage (fst w) = Fin p \<longrightarrow>
        st_height (style (fst w')) =
          Some (Px (Fin (min (rectHeight (parent e)) (innerHeight e) * p))) \<and>
        st_top (style (fst w')) =
          Some (Px (Fin ((min (rectHeight (parent e)) (innerHeight e)
                          - min (rectHeight (parent e)) (innerHeight e) * p) / 2))) \<and>
        (min (rectHeight (parent e)) (innerHeight e)
           - min (rectHeight (parent e)) (innerHeight e) * p) / 2
          + min (rectHeight (parent e)) (innerHeight e) * p / 2
          = min (rectHeight (parent e)) (innerHeight e) / 2)"
  using assms
  by (auto simp: defineStyle_def updateScrollbar_def baseCalcul_min Let_def opacityTarget_def
      field_simps split: option.splits)

theorem defineStyle_geometry_witness:
  "element (fst ex_world) = Some ex_track \<and>
   (\<exists>w'. defineStyle ex_env ex_world = Inr w' \<and>
         st_height (style (fst w')) = Some (Px (Fin 850)) \<and>
         st_top (style (fst w')) = Some (Px (Fin 75)) \<and>
         st_opacity (style (fst w')) = Fin 0.2)"
proof -
  have h: "element (fst ex_world) = Some ex_track"
    by (simp add: ex_world_def ex_scrollbar_def)
  have p: "percentage (fst ex_world) = Fin 0.85"
    by (simp add: ex_world_def ex_scrollbar_def)
  have m: "min (rectHeight (parent ex_env)) (innerHeight ex_env) = 1000"
    by (simp add: ex_env_def ex_body_def)
  from defineStyle_geometry [OF h, of ex_env] obtain w'
    where r: "defineStyle ex_env ex_world = Inr w'"
      and o: "st_opacity (style (fst w')) = Fin 0.2"
      and a: "\<forall>p. percentage (fst ex_world) = Fin p \<longrightarrow>
        st_height (style (fst w')) =
          Some (Px (Fin (min (rectHeight (parent ex_env)) (innerHeight ex_env) * p))) \<and>
        st_top (style (fst w')) =
          Some (Px (Fin ((min (rectHeight (parent ex_env)) (innerHeight ex_env)
                          - min (rectHeight (parent ex_env)) (innerHeight ex_env) * p) / 2))) \<and>
        (min (rectHeight (parent ex_env)) (innerHeight ex_env)
           - min (rectHeight (parent ex_env)) (innerHeight ex_env) * p) / 2
          + min (rectHeight (parent ex_env)) (innerHeight ex_env) * p / 2
          = min (rectHeight (parent ex_env)) (innerHeight ex_env) / 2"
    by blast
  from a p have "st_height (style (fst w')) = Some (Px (Fin (1000 * 0.85)))"
    and "st_top (style (fst w')) = Some (Px (Fin ((1000 - 1000 * 0.85) / 2)))"
    unfolding m by blast+
  with h r o show ?thesis by simp
qed

text \<open>
  C2, as the claim states it, fails: where the window is as high as the content,
  offset 0 is also the maximum offset, the thumb is as high as the track, and the
  translation written to the thumb is NaN, not 0.
\<close>

theorem updateIndicator_endpoint_counterexample:
  "scrollTop ex_tall_env = 0 \<and>
   scrollTop ex_tall_env = scrollHeight (parent ex_tall_env) - innerHeight ex_tall_env \<and>
   progressHeight ex_tall_env = Fin (trackClientHeight ex_tall_env) \<and>
   thumbTransform (updateIndicator ex_tall_env ex_world) = Some NaN \<and>
   thumbTransform (updateIndicator ex_tall_env ex_world) \<noteq> Some (Fin 0)"
  by (simp add: ex_defs method_defs ex_tall_env_def thumbTransform_def)

text \<open>
  C2, amended. Every thumb update (\<open>updateIndicator\<close>) sets the thumb height to
  (innerHeight / host scrollHeight) * track height and the thumb translation to
  scrollFraction * (track height - thumb height), the fraction being the scroll
  offset divided by (host scrollHeight - innerHeight), all in JavaScript
  arithmetic. Where the host's scrollHeight is neither 0 nor equal to
  innerHeight these are the real numbers of the formulas: the translation is 0 at
  offset 0 and track height - thumb height at the maximum offset.
\<close>

theorem updateIndicator_thumb:
  assumes "element (fst w) = Some el" and "indicator (fst w) = Some ind"
  shows "updateIndicator e w =
       Inr ((fst w)\<lparr>indicator :=
              Some (ind\<lparr>css_height := Some (Px (progressHeight e)),
                        css_transform := Some (indicatorTop e)\<rparr>)\<rparr>, snd w) \<and>
     progressHeight e =
       jmul (jdiv (Fin (innerHeight e)) (Fin (scrollHeight (parent e))))
            (Fin (trackClientHeight e)) \<and>
     indicatorTop e =
       jmul (jdiv (Fin (scrollTop e))
                  (jsub (Fin (scrollHeight (parent e))) (Fin (innerHeight e))))
            (jsub (Fin (trackClientHeight e)) (progressHeight e)) \<and>
     (scrollHeight (parent e) \<noteq> 0 \<and> scrollHeight (parent e) \<noteq> innerHeight e \<longrightarrow>
        progressHeight e =
          Fin (innerHeight e / scrollHeight (parent e) * trackClientHeight e) \<and>
        indicatorTop e =
          Fin (scrollTop e / (scrollHeight (parent e) - innerHeight e)
               * (trackClientHeight e
                  - innerHeight e / scrollHeight (parent e) * trackClientHeight e)) \<and>
        (scrollTop e = 0 \<longrightarrow> indicatorTop e = Fin 0) \<and>
        (scrollTop e = scrollHeight (parent e) - innerHeight e \<longrightarrow>
           indicatorTop e =
             Fin (trackClientHeight e
                  - innerHeight e / scrollHeight (parent e) * trackClientHeight e)))"
proof (intro conjI impI)
  show "updateIndicator e w =
       Inr ((fst w)\<lparr>indicator :=
              Some (ind\<lparr>css_height := Some (Px (progressHeight e)),
                        css_transform := Some (indicatorTop e)\<rparr>)\<rparr>, snd w)"
    using assms by (rule updateIndicator_Some)
  show "progressHeight e =
       jmul (jdiv (Fin (innerHeight e)) (Fin (scrollHeight (parent e))))
            (Fin (trackClientHeight e))"
    by (simp only: progressHeight_def)
  show "indicatorTop e =
       jmul (jdiv (Fin (scrollTop e))
                  (jsub (Fin (scrollHeight (parent e))) (Fin (innerHeight e))))
            (jsub (Fin (trackClientHeight e)) (progressHeight e))"
    by (simp only: indicatorTop_def scrollPercent_def totalHeight_def)
next
  assume h: "scrollHeight (parent e) \<noteq> 0 \<and> scrollHeight (parent e) \<noteq> innerHeight e"
  show "progressHeight e =
          Fin (innerHeight e / scrollHeight (parent e) * trackClientHeight e)"
    using h by (simp add: progressHeight_Fin)
  show "indicatorTop e =
          Fin (scrollTop e / (scrollHeight (parent e) - innerHeight e)
               * (trackClientHeight e
                  - innerHeight e / scrollHeight (parent e) * trackClientHeight e))"
    using h by (simp add: indicatorTop_Fin)
next
  assume h: "scrollHeight (parent e) \<noteq> 0 \<and> scrollHeight (parent e) \<noteq> innerHeight e"
    and z: "scrollTop e = 0"
  show "indicatorTop e = Fin 0"
    using h z by (simp add: indicatorTop_Fin)
next
  assume h: "scrollHeight (parent e) \<noteq> 0 \<and> scrollHeight (parent e) \<noteq> innerHeight e"
    and z: "scrollTop e = scrollHeight (parent e) - innerHeight e"
  show "indicatorTop e =
             Fin (trackClientHeight e
                  - innerHeight e / scrollHeight (parent e) * trackClientHeight e)"
    using h z by (simp add: indicatorTop_Fin)
qed

theorem updateIndicator_thumb_witness:
  "element (fst ex_world) = Some ex_track \<and> indicator (fst ex_world) = Some ex_thumb \<and>
   scrollHeight (parent (ex_env\<lparr>scrollY := 2000\<rparr>)) \<noteq> 0 \<and>
   scrollHeight (parent (ex_env\<lparr>scrollY := 2000\<rparr>)) \<noteq> innerHeight (ex_env\<lparr>scrollY := 2000\<rparr>) \<and>
   scrollTop (ex_env\<lparr>scrollY := 2000\<rparr>)
     = scrollHeight (parent (ex_env\<lparr>scrollY := 2000\<rparr>)) - innerHeight (ex_env\<lparr>scrollY := 2000\<rparr>) \<and>
   thumbTransform (updateIndicator (ex_env\<lparr>scrollY := 2000\<rparr>) ex_world) = Some (Fin (1700 / 3)) \<and>
   progressHeight (ex_env\<lparr>scrollY := 2000\<rparr>) = Fin (850 / 3)"
proof -
  let ?e = "ex_env\<lparr>scrollY := 2000\<rparr>"
  have h1: "element (fst ex_world) = Some ex_track"
    and h2: "indicator (fst ex_world) = Some ex_thumb"
    by (simp_all add: ex_world_def ex_scrollbar_def)
  have h3: "scrollHeight (parent ?e) \<noteq> 0 \<and> scrollHeight (parent ?e) \<noteq> innerHeight ?e"
    by (simp add: ex_env_def ex_body_def)
  have h4: "scrollTop ?e = scrollHeight (parent ?e) - innerHeight ?e"
    by (simp add: ex_env_def ex_body_def scrollTop_def num_or_def)
  have v: "trackClientHeight ?e - innerHeight ?e / scrollHeight (parent ?e) * trackClientHeight ?e
      = 1700 / 3"
    and v2: "innerHeight ?e / scrollHeight (parent ?e) * trackClientHeight ?e = 850 / 3"
    by (simp_all add: ex_env_def ex_body_def)
  note t = updateIndicator_thumb [OF h1 h2, of ?e]
  from t h3 h4 have it: "indicatorTop ?e = Fin (1700 / 3)" unfolding v [symmetric] by blast
  from t h3 have ph: "progressHeight ?e = Fin (850 / 3)" unfolding v2 [symmetric] by blast
  from t have "thumbTransform (updateIndicator ?e ex_world) = Some (indicatorTop ?e)"
    by (simp add: thumbTransform_def)
  with it ph h1 h2 h3 h4 show ?thesis by simp
qed

text \<open>
  C3, as the claim states it, fails: with the content as high as the window and
  the page at offset 0 the scroll fraction is NaN, not 0, and the thumb translation
  written to the element is NaN.
\<close>

theorem updateIndicator_zero_range_counterexample:
  "scrollHeight (parent ex_fit_env) - innerHeight ex_fit_env = 0 \<and>
   scrollPercent ex_fit_env = NaN \<and> scrollPercent ex_fit_env \<noteq> Fin 0 \<and>
   thumbTransform (updateIndicator ex_fit_env ex_world) = Some NaN"
  by (simp add: ex_defs method_defs ex_fit_env_def thumbTransform_def)

text \<open>
  C3, amended. The scroll fraction is the unguarded quotient of the scroll offset
  by (host scrollHeight - innerHeight). When the range is zero the fraction is NaN
  at offset 0, +Infinity at a positive and -Infinity at a negative offset, and the
  thumb translation is NaN. When the range is negative the fraction is the finite
  quotient, which is 0 only at offset 0, and the translation is finite when the
  host's scrollHeight is not 0. \<open>updateIndicator\<close> writes this translation to the
  thumb as it is.
\<close>

theorem updateIndicator_unguarded:
  shows "(scrollHeight (parent e) = innerHeight e \<longrightarrow>
           scrollPercent e =
             (if 0 < scrollTop e then PInf else if scrollTop e < 0 then NInf else NaN) \<and>
           indicatorTop e = NaN) \<and>
         (scrollHeight (parent e) < innerHeight e \<longrightarrow>
           scrollPercent e = Fin (scrollTop e / (scrollHeight (parent e) - innerHeight e)) \<and>
           (scrollPercent e = Fin 0 \<longleftrightarrow> scrollTop e = 0) \<and>
           (scrollHeight (parent e) \<noteq> 0 \<longrightarrow>
              indicatorTop e =
                Fin (scrollTop e / (scrollHeight (parent e) - innerHeight e)
                     * (trackClientHeight e
                        - innerHeight e / scrollHeight (parent e) * trackClientHeight e)))) \<and>
         (\<forall>w el ind. element (fst w) = Some el \<and> indicator (fst w) = Some ind \<longrightarrow>
            updateIndicator e w =
              Inr ((fst w)\<lparr>indicator :=
                     Some (ind\<lparr>css_height := Some (Px (progressHeight e)),
                               css_transform := Some (indicatorTop e)\<rparr>)\<rparr>, snd w))"
proof (intro conjI impI allI)
  assume "scrollHeight (parent e) = innerHeight e"
  then show "scrollPercent e =
             (if 0 < scrollTop e then PInf else if scrollTop e < 0 then NInf else NaN)"
    by (rule scrollPercent_zero_range)
next
  assume "scrollHeight (parent e) = innerHeight e"
  then show "indicatorTop e = NaN" by (rule indicatorTop_zero_range)
next
  assume "scrollHeight (parent e) < innerHeight e"
  then show "scrollPercent e = Fin (scrollTop e / (scrollHeight (parent e) - innerHeight e))"
    by (simp add: scrollPercent_Fin)
next
  assume "scrollHeight (parent e) < innerHeight e"
  then show "(scrollPercent e = Fin 0) = (scrollTop e = 0)"
    by (simp add: scrollPercent_Fin)
next
  assume "scrollHeight (parent e) < innerHeight e" and "scrollHeight (parent e) \<noteq> 0"
  then show "indicatorTop e =
                Fin (scrollTop e / (scrollHeight (parent e) - innerHeight e)
                     * (trackClientHeight e
                        - innerHeight e / scrollHeight (parent e) * trackClientHeight e))"
    by (simp add: indicatorTop_Fin)
next
  fix w :: world and el ind
  assume "element (fst w) = Some el \<and> indicator (fst w) = Some ind"
  then show "updateIndicator e w =
              Inr ((fst w)\<lparr>indicator :=
                     Some (ind\<lparr>css_height := Some (Px (progressHeight e)),
                               css_transform := Some (indicatorTop e)\<rparr>)\<rparr>, snd w)"
    by (simp add: updateIndicator_Some)
qed

theorem updateIndicator_unguarded_witness:
  "scrollHeight (parent (ex_fit_env\<lparr>scrollY := 40\<rparr>)) = innerHeight (ex_fit_env\<lparr>scrollY := 40\<rparr>) \<and>
   scrollPercent (ex_fit_env\<lparr>scrollY := 40\<rparr>) = PInf \<and>
   indicatorTop (ex_fit_env\<lparr>scrollY := 40\<rparr>) = NaN \<and>
   scrollHeight (parent (ex_short_env\<lparr>scrollY := 50\<rparr>)) < innerHeight (ex_short_env\<lparr>scrollY := 50\<rparr>) \<and>
   scrollPercent (ex_short_env\<lparr>scrollY := 50\<rparr>) = Fin (- (1 / 4))"
proof -
  let ?a = "ex_fit_env\<lparr>scrollY := 40\<rparr>"
  let ?b = "ex_short_env\<lparr>scrollY := 50\<rparr>"
  have a: "scrollHeight (parent ?a) = innerHeight ?a" and sa: "0 < scrollTop ?a"
    by (simp_all add: ex_fit_env_def ex_body_def scrollTop_def num_or_def)
  have b: "scrollHeight (parent ?b) < innerHeight ?b"
    and sb: "scrollTop ?b / (scrollHeight (parent ?b) - innerHeight ?b) = - (1 / 4)"
    by (simp_all add: ex_short_env_def ex_body_def scrollTop_def num_or_def)
  from updateIndicator_unguarded [of ?a] a sa
  have 1: "scrollPercent ?a = PInf" and 2: "indicatorTop ?a = NaN" by simp_all
  from updateIndicator_unguarded [of ?b] b
  have "scrollPercent ?b = Fin (scrollTop ?b / (scrollHeight (parent ?b) - innerHeight ?b))"
    by blast
  with sb have 3: "scrollPercent ?b = Fin (- (1 / 4))" by simp
  from a b 1 2 3 show ?thesis by blast
qed

text \<open>
  C4. During an active drag every pointer move asks the window to scroll to
  startScrollTop + ((clientY - startY) * velocity / track height)
  * (host scrollHeight - innerHeight); the value is passed to \<open>window.scrollTo\<close> as
  computed, without clamping, and the instance is left as it was.
\<close>

theorem onDrag_target:
  assumes "isDragging (fst w)" and "element (fst w) = Some el"
  shows "onDrag e y w =
      Inr (fst w,
           (snd w)\<lparr>scrollRequests :=
              jadd (startScrollTop (fst w))
                (jmul (jdiv (jmul (jsub (Fin y) (startY (fst w))) (velocity (fst w)))
                            (Fin (trackClientHeight e)))
                      (jsub (Fin (scrollHeight (parent e))) (Fin (innerHeight e))))
              # scrollRequests (snd w)\<rparr>) \<and>
    (\<forall>s0 y0 v. startScrollTop (fst w) = Fin s0 \<and> startY (fst w) = Fin y0 \<and>
        velocity (fst w) = Fin v \<and> trackClientHeight e \<noteq> 0 \<longrightarrow>
        onDrag e y w =
          Inr (fst w,
               (snd w)\<lparr>scrollRequests :=
                  Fin (s0 + (y - y0) * v / trackClientHeight e
                            * (scrollHeight (parent e) - innerHeight e))
                  # scrollRequests (snd w)\<rparr>))"
  using assms by (simp add: onDrag_def Let_def)

theorem onDrag_target_witness:
  "isDragging (fst ex_drag_world) \<and> element (fst ex_drag_world) = Some ex_track \<and>
   onDrag ex_env 400 ex_drag_world =
     Inr (fst ex_drag_world, (snd ex_drag_world)\<lparr>scrollRequests := [Fin (16500 / 17)]\<rparr>) \<and>
   \<bar>16500 / 17 - 970.6\<bar> < (0.05 :: real) \<and>
   onDrag ex_env 1300 ex_drag_world =
     Inr (fst ex_drag_world, (snd ex_drag_world)\<lparr>scrollRequests := [Fin (88500 / 17)]\<rparr>) \<and>
   scrollHeight (parent ex_env) - innerHeight ex_env < (88500 / 17 :: real)"
proof -
  have h1: "isDragging (fst ex_drag_world)"
    and h2: "element (fst ex_drag_world) = Some ex_track"
    by (simp_all add: ex_drag_world_def ex_scrollbar_def)
  have f: "startScrollTop (fst ex_drag_world) = Fin 500 \<and> startY (fst ex_drag_world) = Fin 300 \<and>
        velocity (fst ex_drag_world) = Fin 2 \<and> trackClientHeight ex_env \<noteq> 0"
    by (simp add: ex_drag_world_def ex_scrollbar_def ex_env_def)
  have v: "500 + (400 - 300) * 2 / trackClientHeight ex_env
             * (scrollHeight (parent ex_env) - innerHeight ex_env) = 16500 / 17"
    and v2: "500 + (1300 - 300) * 2 / trackClientHeight ex_env
             * (scrollHeight (parent ex_env) - innerHeight ex_env) = 88500 / 17"
    and r: "scrollHeight (parent ex_env) - innerHeight ex_env < (88500 / 17 :: real)"
    and q: "scrollRequests (snd ex_drag_world) = []"
    by (simp_all add: ex_env_def ex_body_def ex_drag_world_def ex_browser_def)
  from onDrag_target [OF h1 h2, of ex_env 400] f
  have 1: "onDrag ex_env 400 ex_drag_world =
     Inr (fst ex_drag_world, (snd ex_drag_world)\<lparr>scrollRequests := [Fin (16500 / 17)]\<rparr>)"
    unfolding v [symmetric] q [symmetric] by blast
  from onDrag_target [OF h1 h2, of ex_env 1300] f
  have 2: "onDrag ex_env 1300 ex_drag_world =
     Inr (fst ex_drag_world, (snd ex_drag_world)\<lparr>scrollRequests := [Fin (88500 / 17)]\<rparr>)"
    unfolding v2 [symmetric] q [symmetric] by blast
  have 3: "\<bar>16500 / 17 - 970.6\<bar> < (0.05 :: real)" by simp
  from h1 h2 1 2 3 r show ?thesis by blast
qed




text \<open>
  C6, as the claim states it, fails: the pointer enters the track one second after
  a scroll event and stays there; the timeout is still pending after the
  hover-enter, and one second later it has run and the track is at the resting
  opacity.
\<close>

theorem hover_timer_counterexample:
  "pendingTimers (run ex_scroll_hover ex_world) = [(1, 2000)] \<and>
   trackOpacity (run ex_scroll_hover ex_world) = Some opacityBasic \<and>
   pendingTimers (run (ex_scroll_hover @ [Elapse 1000]) ex_world) = [] \<and>
   trackOpacity (run (ex_scroll_hover @ [Elapse 1000]) ex_world) = Some opacityTarget"
  by (simp add: ex_defs method_defs ex_scroll_hover_def ex_scroll_wait_def pendingTimers_def
      trackOpacity_def)

text \<open>
  C6, amended. A hover-enter only sets the track opacity to the active level: the
  instance and the browser are otherwise unchanged, a pending timeout stays
  pending, and when its time has come its callback sets the resting opacity,
  whether or not the pointer is over the track.
\<close>

theorem hover_enter_keeps_timer:
  assumes "listeners br = []" and "timers br = []" and "0 < nextTimer br"
    and "start e0 found prm br = Inr w0" and "run evs w0 = Inr w"
    and "isScrollbarNeeded (fst w)"
  shows "\<exists>el. element (fst w) = Some el \<and>
     dispatch Track ''mouseenter'' e y w =
       Inr ((fst w)\<lparr>element := Some (el\<lparr>css_opacity := Some opacityBasic\<rparr>)\<rparr>, snd w) \<and>
     (\<forall>t d. timers (snd w) = [t] \<and> snd t \<le> now (snd w) + d \<longrightarrow>
        elapse d ((fst w)\<lparr>element := Some (el\<lparr>css_opacity := Some opacityBasic\<rparr>)\<rparr>, snd w) =
          Inr ((fst w)\<lparr>element := Some (el\<lparr>css_opacity := Some opacityTarget\<rparr>)\<rparr>,
               (snd w)\<lparr>now := now (snd w) + d, timers := []\<rparr>))"
proof -
  from reachable_inv [OF assms(1-4), of evs] assms(5)
  have i: "debounce_inv (last_scroll (now br) None evs) w" by auto
  with assms(6) have w: "wired w"
    and b: "set (filter (\<lambda>l. fst l = Track) (listeners (snd w))) = set track_listeners"
    by (simp_all add: debounce_inv_def wiring_inv_def)
  from w obtain el where el: "element (fst w) = Some el" by (auto simp: wired_def)
  let ?hw = "((fst w)\<lparr>element := Some (el\<lparr>css_opacity := Some opacityBasic\<rparr>)\<rparr>, snd w)"
  from enter_handlers [OF b]
  have d: "dispatch Track ''mouseenter'' e y w = Inr ?hw"
    unfolding dispatch_def by (intro run_handlers_styleActivity [OF el]) simp_all
  have f: "elapse d ?hw =
          Inr ((fst w)\<lparr>element := Some (el\<lparr>css_opacity := Some opacityTarget\<rparr>)\<rparr>,
               (snd w)\<lparr>now := now (snd w) + d, timers := []\<rparr>)"
    if "timers (snd w) = [t] \<and> snd t \<le> now (snd w) + d" for t d
    using elapse_due [of ?hw t d "el\<lparr>css_opacity := Some opacityBasic\<rparr>"] that by simp
  from el d f show ?thesis by blast
qed

theorem hover_enter_keeps_timer_witness:
  "listeners browser0 = [] \<and> timers browser0 = [] \<and> 0 < nextTimer browser0 \<and>
   start ex_env (Some ex_body) ex_param browser0 = Inr ex_world \<and>
   (\<exists>w el. run ex_scroll_wait ex_world = Inr w \<and> isScrollbarNeeded (fst w) \<and>
      element (fst w) = Some el \<and> timers (snd w) = [(1, 2000)] \<and> now (snd w) = 1000 \<and>
      dispatch Track ''mouseenter'' ex_env 0 w =
        Inr ((fst w)\<lparr>element := Some (el\<lparr>css_opacity := Some opacityBasic\<rparr>)\<rparr>, snd w) \<and>
      elapse 1000 ((fst w)\<lparr>element := Some (el\<lparr>css_opacity := Some opacityBasic\<rparr>)\<rparr>, snd w) =
        Inr ((fst w)\<lparr>element := Some (el\<lparr>css_opacity := Some opacityTarget\<rparr>)\<rparr>,
             (snd w)\<lparr>now := 2000, timers := []\<rparr>))"
proof -
  have h1: "listeners browser0 = []" and h2: "timers browser0 = []"
    and h3: "0 < nextTimer browser0"
    by (simp_all add: browser0_def)
  note h4 = start_ex_world
  from run_ex_scroll_wait obtain w where r: "run ex_scroll_wait ex_world = Inr w"
    and t: "timers (snd w) = [(1, 2000)]" and n: "now (snd w) = 1000"
    and nd: "isScrollbarNeeded (fst w)" by blast
  from hover_enter_keeps_timer [OF h1 h2 h3 h4 r nd, of ex_env 0] obtain el
    where el: "element (fst w) = Some el"
      and d: "dispatch Track ''mouseenter'' ex_env 0 w =
        Inr ((fst w)\<lparr>element := Some (el\<lparr>css_opacity := Some opacityBasic\<rparr>)\<rparr>, snd w)"
      and f: "\<forall>t d. timers (snd w) = [t] \<and> snd t \<le> now (snd w) + d \<longrightarrow>
        elapse d ((fst w)\<lparr>element := Some (el\<lparr>css_opacity := Some opacityBasic\<rparr>)\<rparr>, snd w) =
          Inr ((fst w)\<lparr>element := Some (el\<lparr>css_opacity := Some opacityTarget\<rparr>)\<rparr>,
               (snd w)\<lparr>now := now (snd w) + d, timers := []\<rparr>)"
    by blast
  from f [rule_format, of "(1, 2000)" 1000] t n
  have "elapse 1000 ((fst w)\<lparr>element := Some (el\<lparr>css_opacity := Some opacityBasic\<rparr>)\<rparr>, snd w) =
        Inr ((fst w)\<lparr>element := Some (el\<lparr>css_opacity := Some opacityTarget\<rparr>)\<rparr>,
             (snd w)\<lparr>now := 2000, timers := []\<rparr>)"
    by simp
  with h1 h2 h3 h4 r nd el t n d show ?thesis by blast
qed

text \<open>
  C7. When the needs-scrollbar check fails at construction (a body host whose
  document scrollHeight is not greater than \<open>window.innerHeight\<close>, any other host
  whose scrollHeight is not greater than its clientHeight), the constructor creates
  no track and no thumb and leaves the browser as it was, and \<open>init\<close> returns the
  world unchanged: no listener, no layout, no thumb update. \<open>init\<close> does so whatever
  the metrics are when it runs, since it reads the flag the constructor stored and
  does not repeat the check.
\<close>

theorem constructor_not_needed:
  assumes "(toLowerCase (tagName p) = ''body'' \<and> docScrollHeight e \<le> innerHeight e) \<or>
           (toLowerCase (tagName p) \<noteq> ''body'' \<and> scrollHeight p \<le> clientHeight p)"
  shows "\<exists>sb. constructor e (Some p) parameters br = Inr (sb, br) \<and>
           element sb = None \<and> indicator sb = None \<and> \<not> isScrollbarNeeded sb \<and>
           (\<forall>e'. init e' (sb, br) = Inr (sb, br)) \<and>
           start e (Some p) parameters br = Inr (sb, br)"
proof -
  have nn: "\<not> needsScrollbar e p"
    using assms unfolding needsScrollbar_def
    by (cases "toLowerCase (tagName p) = ''body''") simp_all
  show ?thesis
    unfolding start_def constructor_Some_not_needed [OF nn]
    by (simp add: init_not_needed)
qed

theorem constructor_not_needed_witness:
  "toLowerCase (tagName (parent ex_short_env)) = ''body'' \<and>
   docScrollHeight ex_short_env \<le> innerHeight ex_short_env \<and>
   needsScrollbar ex_env (parent ex_env) \<and>
   (\<exists>sb. constructor ex_short_env (Some (parent ex_short_env)) ex_param browser0
            = Inr (sb, browser0) \<and>
         element sb = None \<and> indicator sb = None \<and>
         init ex_env (sb, browser0) = Inr (sb, browser0) \<and>
         listeners browser0 = [] \<and> appended browser0 = 0)"
proof -
  have h: "toLowerCase (tagName (parent ex_short_env)) = ''body'' \<and>
      docScrollHeight ex_short_env \<le> innerHeight ex_short_env"
    by (simp add: ex_short_env_def ex_body_def toLowerCase_def lower_char_def)
  have n: "needsScrollbar ex_env (parent ex_env)"
    by (simp add: needsScrollbar_def ex_env_def ex_body_def toLowerCase_def lower_char_def)
  have b: "listeners browser0 = [] \<and> appended browser0 = 0" by (simp add: browser0_def)
  from constructor_not_needed [of "parent ex_short_env" ex_short_env ex_param browser0] h
  obtain sb where "constructor ex_short_env (Some (parent ex_short_env)) ex_param browser0
            = Inr (sb, browser0)"
    and "element sb = None" and "indicator sb = None"
    and "\<forall>e'. init e' (sb, browser0) = Inr (sb, browser0)"
    by blast
  with h n b show ?thesis by blast
qed

text \<open>
  C8, as the claim states it, fails: with the page scrolled 1500 where the host's
  scrollHeight minus the window height is 1000, the fraction is 1.5 and the thumb
  translation is 600, beyond track height - thumb height = 400.
\<close>

theorem updateIndicator_clamp_counterexample:
  "scrollPercent ex_over_env = Fin (3 / 2) \<and>
   progressHeight ex_over_env = Fin 400 \<and>
   thumbTransform (updateIndicator ex_over_env ex_world) = Some (Fin 600) \<and>
   \<not> (600 \<le> trackClientHeight ex_over_env - (400 :: real))"
  by (simp add: ex_defs method_defs ex_over_env_def thumbTransform_def)

text \<open>
  C8, amended. The scroll fraction is used as computed, without clamping: for a
  window height that is not negative and smaller than the host's scrollHeight the
  fraction is offset / range and the translation is fraction * (track height -
  thumb height). The translation lies in [0, track height - thumb height] when the
  offset lies in [0, range]; for a track of positive height it is above that
  interval when the offset is above the range and below it when the offset is
  negative.
\<close>

theorem updateIndicator_in_range:
  assumes "0 \<le> innerHeight e" and "innerHeight e < scrollHeight (parent e)"
    and "0 \<le> trackClientHeight e"
  shows "\<exists>f room. f = scrollTop e / (scrollHeight (parent e) - innerHeight e) \<and>
           room = trackClientHeight e
                    - innerHeight e / scrollHeight (parent e) * trackClientHeight e \<and>
           scrollPercent e = Fin f \<and> indicatorTop e = Fin (f * room) \<and> 0 \<le> room \<and>
           (0 \<le> scrollTop e \<and> scrollTop e \<le> scrollHeight (parent e) - innerHeight e \<longrightarrow>
              0 \<le> f \<and> f \<le> 1 \<and> 0 \<le> f * room \<and> f * room \<le> room) \<and>
           (0 < trackClientHeight e \<and> scrollHeight (parent e) - innerHeight e < scrollTop e \<longrightarrow>
              1 < f \<and> room < f * room) \<and>
           (0 < trackClientHeight e \<and> scrollTop e < 0 \<longrightarrow> f < 0 \<and> f * room < 0)"
proof -
  define sh where "sh = scrollHeight (parent e)"
  define ih where "ih = innerHeight e"
  define ch where "ch = trackClientHeight e"
  define f where "f = scrollTop e / (sh - ih)"
  define room where "room = ch - ih / sh * ch"
  have sh: "0 < sh" and rng: "0 < sh - ih" using assms by (auto simp: sh_def ih_def)
  have q: "ih / sh < 1" using assms sh by (simp add: sh_def ih_def)
  have room_eq: "room = (1 - ih / sh) * ch" by (simp add: room_def algebra_simps)
  have room: "0 \<le> room" unfolding room_eq using q assms(3) by (simp add: ch_def)
  have room_pos: "0 < room" if "0 < ch" unfolding room_eq using q that by simp
  have sp: "scrollPercent e = Fin f"
    using rng by (simp add: scrollPercent_Fin f_def sh_def ih_def)
  have it: "indicatorTop e = Fin (f * room)"
    using rng sh by (simp add: indicatorTop_Fin f_def room_def sh_def ih_def ch_def)
  have a: "0 \<le> f \<and> f \<le> 1 \<and> 0 \<le> f * room \<and> f * room \<le> room"
    if "0 \<le> scrollTop e \<and> scrollTop e \<le> sh - ih"
  proof -
    have f0: "0 \<le> f" using that rng by (simp add: f_def)
    have f1: "f \<le> 1" using that rng by (simp add: f_def)
    have t0: "0 \<le> f * room" using f0 room by (rule mult_nonneg_nonneg)
    have "f * room \<le> 1 * room" using f1 room by (rule mult_right_mono)
    with f0 f1 t0 show ?thesis by simp
  qed
  have b: "1 < f \<and> room < f * room" if "0 < ch \<and> sh - ih < scrollTop e"
  proof -
    have f1: "1 < f" using that rng by (simp add: f_def)
    have "1 * room < f * room" using f1 room_pos that by (intro mult_strict_right_mono) simp_all
    with f1 show ?thesis by simp
  qed
  have c: "f < 0 \<and> f * room < 0" if "0 < ch \<and> scrollTop e < 0"
  proof -
    have f0: "f < 0" using that rng by (simp add: f_def divide_neg_pos)
    have "f * room < 0" using f0 room_pos that by (intro mult_neg_pos) simp_all
    with f0 show ?thesis by simp
  qed
  from sp it room a b c show ?thesis
    unfolding f_def room_def sh_def ih_def ch_def by blast
qed

theorem updateIndicator_in_range_witness:
  "0 \<le> innerHeight (ex_env\<lparr>scrollY := 500\<rparr>) \<and>
   innerHeight (ex_env\<lparr>scrollY := 500\<rparr>) < scrollHeight (parent (ex_env\<lparr>scrollY := 500\<rparr>)) \<and>
   0 \<le> trackClientHeight (ex_env\<lparr>scrollY := 500\<rparr>) \<and>
   scrollPercent (ex_env\<lparr>scrollY := 500\<rparr>) = Fin (1 / 4) \<and>
   indicatorTop (ex_env\<lparr>scrollY := 500\<rparr>) = Fin (425 / 3)"
proof -
  let ?e = "ex_env\<lparr>scrollY := 500\<rparr>"
  have h1: "0 \<le> innerHeight ?e" and h2: "innerHeight ?e < scrollHeight (parent ?e)"
    and h3: "0 \<le> trackClientHeight ?e"
    by (simp_all add: ex_env_def ex_body_def)
  have v: "scrollTop ?e / (scrollHeight (parent ?e) - innerHeight ?e) = 1 / 4"
    and r: "trackClientHeight ?e
             - innerHeight ?e / scrollHeight (parent ?e) * trackClientHeight ?e = 1700 / 3"
    by (simp_all add: ex_env_def ex_body_def scrollTop_def num_or_def)
  from updateIndicator_in_range [OF h1 h2 h3] obtain f room
    where fe: "f = scrollTop ?e / (scrollHeight (parent ?e) - innerHeight ?e)"
      and re: "room = trackClientHeight ?e
             - innerHeight ?e / scrollHeight (parent ?e) * trackClientHeight ?e"
      and sp: "scrollPercent ?e = Fin f" and it: "indicatorTop ?e = Fin (f * room)"
    by blast
  from fe v have f: "f = 1 / 4" by (simp only:)
  from re r have rm: "room = 1700 / 3" by (simp only:)
  have "scrollPercent ?e = Fin (1 / 4)" using sp unfolding f .
  moreover have "indicatorTop ?e = Fin (425 / 3)" using it unfolding f rm by simp
  ultimately show ?thesis using h1 h2 h3 by blast
qed

text \<open>
  C9. When the host selector matches no element (\<open>document.querySelector\<close> returns
  \<open>null\<close>), the constructor throws: reading \<open>parent.tagName\<close> of \<open>null\<close> is a
  TypeError, raised before any element is created, so no instance exists and \<open>init\<close>
  is never reached.
\<close>

theorem constructor_missing_host:
  "constructor e None parameters br = Inl TypeError \<and>
   start e None parameters br = Inl TypeError"
  by (simp add: constructor_def start_def)

theorem constructor_missing_host_witness:
  "constructor ex_env None ex_param browser0 = Inl TypeError \<and>
   start ex_env None ex_param browser0 = Inl TypeError"
  by (rule constructor_missing_host)

text \<open>
  C10. A pointer move received while no drag is active changes nothing: \<open>onDrag\<close>
  returns at once, with no scroll request and with the instance and the browser as
  they were, also when it runs as the window's only \<open>mousemove\<close> listener.
\<close>

theorem onDrag_idle:
  assumes "\<not> isDragging (fst w)"
  shows "onDrag e y w = Inr w \<and> run_handler CallOnDrag e y w = Inr w \<and>
     (map (\<lambda>l. snd (snd l))
        (filter (\<lambda>l. fst l = Window \<and> fst (snd l) = ''mousemove'') (listeners (snd w)))
        = [CallOnDrag] \<longrightarrow>
      dispatch Window ''mousemove'' e y w = Inr w)"
  using assms by (simp add: onDrag_def dispatch_def)

theorem onDrag_idle_witness:
  "\<not> isDragging (fst ex_world) \<and> onDrag ex_env 400 ex_world = Inr ex_world \<and>
   dispatch Window ''mousemove'' ex_env 400 ex_world = Inr ex_world"
proof -
  have h: "\<not> isDragging (fst ex_world)" by (simp add: ex_world_def ex_scrollbar_def)
  have l: "map (\<lambda>l. snd (snd l))
        (filter (\<lambda>l. fst l = Window \<and> fst (snd l) = ''mousemove'') (listeners (snd ex_world)))
        = [CallOnDrag]"
    by (simp add: ex_world_def ex_browser_def track_listeners_def window_listeners_def)
  from onDrag_idle [OF h, of ex_env 400] l h show ?thesis by blast
qed

end
